theory Spec2Isabelle
  imports Complex_Main "HOL-Library.Product_Lexorder" "HOL-Library.AList"
begin

section \<open>Conventions of the embedding\<close>

text \<open>
  The Python sources are embedded as state-passing functions.

  \<^item> The Python \<open>float\<close> values of the circuit breaker and of the response cache
    (timestamps, durations, thresholds, embeddings, similarity scores) are idealised as
    \<open>real\<close>: finite values with exact arithmetic; rounding and the special values of IEEE
    arithmetic are not part of the model there. The \<open>float\<close> values of the A/B tests
    (weights, their sums, buckets) are IEEE 754 binary64 numbers with rounding, infinities
    and NaN: see the section on floating point.
  \<^item> Python \<open>int\<close> is \<open>int\<close>.
  \<^item> Everything outside an object (the wall clock read by \<open>time.time()\<close>, the effects of
    a protected operation or of a fallback producer) lives in a world \<open>'w\<close>. A reading of
    the clock is a function \<open>'w \<Rightarrow> real \<times> 'w\<close>, handed to every function that calls
    \<open>time.time()\<close>, once per call in the source's order.
  \<^item> An exception is a value: functions that can raise return a sum whose \<open>Inl\<close> is the
    exception.
  \<^item> Calls to \<open>logger\<close> have no effect on any modelled state and are left out.
\<close>

type_synonym 'w clock = "'w \<Rightarrow> real \<times> 'w"

section \<open>Circuit breaker (src/core/circuit\_breaker.py)\<close>

datatype CircuitState = CLOSED | OPEN | HALF_OPEN

record state_change =
  sc_from :: CircuitState
  sc_to :: CircuitState
  sc_time :: real

record CircuitBreakerStats =
  total_calls :: int
  success_count :: int
  failure_count :: int
  consecutive_failures :: int
  last_failure_time :: real
  state_changes :: "state_change list"

text \<open>
  What a protected call can raise: \<open>CircuitOpenError\<close> with its message, or the
  exception \<open>'e\<close> of the operation (or of the fallback producer) itself. The exceptions
  \<open>'e\<close> are those of class \<open>Exception\<close>, the ones that the \<open>except Exception\<close> clauses of
  \<open>call\<close> and \<open>call_async\<close> catch. What is raised outside that class (\<open>KeyboardInterrupt\<close>,
  \<open>SystemExit\<close>, the cancellation of an asyncio task) leaves the call without being
  recorded as a failure and is not part of the model.
\<close>

datatype 'e call_error = CircuitOpenError string | Raised 'e

text \<open>A callable of the outside: it runs in the world and returns or raises.\<close>

type_synonym ('w, 'e, 'a) callable = "'w \<Rightarrow> ('e + 'a) \<times> 'w"

record ('w, 'e, 'a) CircuitBreaker =
  failure_threshold :: int
  recovery_timeout :: real
  half_open_max_calls :: int
  fallback :: "('w, 'e, 'a) callable option"
  name :: string
  state_field :: CircuitState
  stats_field :: CircuitBreakerStats
  half_open_calls :: int

definition new_stats :: CircuitBreakerStats where
  "new_stats = \<lparr>total_calls = 0, success_count = 0, failure_count = 0,
     consecutive_failures = 0, last_failure_time = 0, state_changes = []\<rparr>"

text \<open>\<open>CircuitBreaker.__init__\<close>\<close>

definition new_breaker ::
  "int \<Rightarrow> real \<Rightarrow> int \<Rightarrow> ('w, 'e, 'a) callable option \<Rightarrow> string \<Rightarrow> ('w, 'e, 'a) CircuitBreaker" where
  "new_breaker ft rt hm fb nm =
     \<lparr>failure_threshold = ft, recovery_timeout = rt, half_open_max_calls = hm,
      fallback = fb, name = nm, state_field = CLOSED, stats_field = new_stats,
      half_open_calls = 0\<rparr>"

text \<open>
  \<open>_transition_to\<close>: nothing happens when the state is already the new one; otherwise
  the state is replaced, the change is logged with a fresh clock reading, and entering
  \<open>HALF_OPEN\<close> zeroes the trial counter.
\<close>

definition transition_to ::
  "'w clock \<Rightarrow> CircuitState \<Rightarrow> ('w, 'e, 'a) CircuitBreaker \<Rightarrow> 'w \<Rightarrow> ('w, 'e, 'a) CircuitBreaker \<times> 'w" where
  "transition_to tm new_state b w =
     (if state_field b \<noteq> new_state then
        (let old_state = state_field b;
             (t, w') = tm w;
             b1 = b\<lparr>state_field := new_state,
                    stats_field := (stats_field b)\<lparr>state_changes :=
                       state_changes (stats_field b) @
                         [\<lparr>sc_from = old_state, sc_to = new_state, sc_time = t\<rparr>]\<rparr>\<rparr>
         in (if new_state = HALF_OPEN then b1\<lparr>half_open_calls := 0\<rparr> else b1, w'))
      else (b, w))"

text \<open>
  The \<open>state\<close> property: a stored \<open>OPEN\<close> becomes \<open>HALF_OPEN\<close> once the clock
  reads at least \<open>recovery_timeout\<close> past the last failure; the clock is read only when
  the stored state is \<open>OPEN\<close>. The result is the observed state with the updated breaker.
\<close>

definition state ::
  "'w clock \<Rightarrow> ('w, 'e, 'a) CircuitBreaker \<Rightarrow> 'w \<Rightarrow> CircuitState \<times> ('w, 'e, 'a) CircuitBreaker \<times> 'w" where
  "state tm b w =
     (if state_field b = OPEN then
        (let (now, w1) = tm w in
         if now - last_failure_time (stats_field b) \<ge> recovery_timeout b then
           (let (b', w2) = transition_to tm HALF_OPEN b w1 in (state_field b', b', w2))
         else (state_field b, b, w1))
      else (state_field b, b, w))"

text \<open>\<open>_record_success\<close>\<close>

definition record_success ::
  "'w clock \<Rightarrow> ('w, 'e, 'a) CircuitBreaker \<Rightarrow> 'w \<Rightarrow> ('w, 'e, 'a) CircuitBreaker \<times> 'w" where
  "record_success tm b w =
     (let s = stats_field b;
          b1 = b\<lparr>stats_field := s\<lparr>total_calls := total_calls s + 1,
                                     success_count := success_count s + 1,
                                     consecutive_failures := 0\<rparr>\<rparr>
      in if state_field b1 = HALF_OPEN then
           (let b2 = b1\<lparr>half_open_calls := half_open_calls b1 + 1\<rparr>
            in if half_open_calls b2 \<ge> half_open_max_calls b2
               then transition_to tm CLOSED b2 w else (b2, w))
         else (b1, w))"

text \<open>\<open>_record_failure\<close>; the exception is only logged.\<close>

definition record_failure ::
  "'w clock \<Rightarrow> 'e \<Rightarrow> ('w, 'e, 'a) CircuitBreaker \<Rightarrow> 'w \<Rightarrow> ('w, 'e, 'a) CircuitBreaker \<times> 'w" where
  "record_failure tm err b w =
     (let s = stats_field b;
          (t, w1) = tm w;
          b1 = b\<lparr>stats_field := s\<lparr>total_calls := total_calls s + 1,
                                     failure_count := failure_count s + 1,
                                     consecutive_failures := consecutive_failures s + 1,
                                     last_failure_time := t\<rparr>\<rparr>
      in if state_field b1 = CLOSED then
           (if consecutive_failures (stats_field b1) \<ge> failure_threshold b1
            then transition_to tm OPEN b1 w1 else (b1, w1))
         else if state_field b1 = HALF_OPEN then transition_to tm OPEN b1 w1
         else (b1, w1))"

text \<open>
  The fallback producer is called with the arguments of the operation; what it returns
  or raises is what the protected call returns or raises.
\<close>

definition run_fallback ::
  "('w, 'e, 'a) callable \<Rightarrow> 'w \<Rightarrow> ('e call_error + 'a) \<times> 'w" where
  "run_fallback fb w = (let (r, w') = fb w in (map_sum Raised id r, w'))"

definition open_message :: "string \<Rightarrow> string" where
  "open_message nm = ''Circuit breaker '' @ [CHR 0x27] @ nm @ [CHR 0x27] @ '' is OPEN''"

text \<open>
  \<open>call_sync\<close>: the state is observed first; on \<open>OPEN\<close> the operation is not run. The
  operation \<open>func\<close> together with its arguments is the callable \<open>op\<close>.
\<close>

definition call_sync ::
  "'w clock \<Rightarrow> ('w, 'e, 'a) CircuitBreaker \<Rightarrow> ('w, 'e, 'a) callable \<Rightarrow> 'w
     \<Rightarrow> ('e call_error + 'a) \<times> ('w, 'e, 'a) CircuitBreaker \<times> 'w" where
  "call_sync tm b op w =
     (let (st, b1, w1) = state tm b w in
      if st = OPEN then
        (case fallback b1 of
           Some fb \<Rightarrow> (let (r, w2) = run_fallback fb w1 in (r, b1, w2))
         | None \<Rightarrow> (Inl (CircuitOpenError (open_message (name b1))), b1, w1))
      else
        (let (res, w2) = op w1 in
         case res of
           Inr result \<Rightarrow> (let (b2, w3) = record_success tm b1 w2 in (Inr result, b2, w3))
         | Inl e \<Rightarrow>
             (let (b2, w3) = record_failure tm e b1 w2 in
              case fallback b2 of
                Some fb \<Rightarrow> (let (r, w4) = run_fallback fb w3 in (r, b2, w4))
              | None \<Rightarrow> (Inl (Raised e), b2, w3))))"

text \<open>
  \<open>call_async\<close>, run without interleaving: each \<open>async with self._lock\<close> block is
  executed as one step, and awaiting a coroutine function is running it. The flag
  \<open>is_coroutine\<close> is \<open>asyncio.iscoroutinefunction(func)\<close>.
\<close>

definition call_async ::
  "'w clock \<Rightarrow> ('w, 'e, 'a) CircuitBreaker \<Rightarrow> bool \<Rightarrow> ('w, 'e, 'a) callable \<Rightarrow> 'w
     \<Rightarrow> ('e call_error + 'a) \<times> ('w, 'e, 'a) CircuitBreaker \<times> 'w" where
  "call_async tm b is_coroutine op w =
     (let (st, b1, w1) = state tm b w in
      if st = OPEN then
        (case fallback b1 of
           Some fb \<Rightarrow> (let (r, w2) = run_fallback fb w1 in (r, b1, w2))
         | None \<Rightarrow> (Inl (CircuitOpenError (open_message (name b1))), b1, w1))
      else
        (let (res, w2) = (if is_coroutine then op w1 else op w1) in
         case res of
           Inr result \<Rightarrow> (let (b2, w3) = record_success tm b1 w2 in (Inr result, b2, w3))
         | Inl e \<Rightarrow>
             (let (b2, w3) = record_failure tm e b1 w2 in
              case fallback b2 of
                Some fb \<Rightarrow> (let (r, w4) = run_fallback fb w3 in (r, b2, w4))
              | None \<Rightarrow> (Inl (Raised e), b2, w3))))"

text \<open>\<open>n\<close> recorded failures in a row, and \<open>n\<close> recorded successes in a row.\<close>

fun failures :: "'w clock \<Rightarrow> 'e list \<Rightarrow> ('w, 'e, 'a) CircuitBreaker \<Rightarrow> 'w \<Rightarrow> ('w, 'e, 'a) CircuitBreaker \<times> 'w" where
  "failures tm [] b w = (b, w)"
| "failures tm (e # es) b w = (let (b', w') = record_failure tm e b w in failures tm es b' w')"




section \<open>Strings\<close>

text \<open>
  A Python \<open>str\<close> is modelled as a \<open>string\<close> whose characters are the code points below
  256. On these, \<open>str.isspace\<close> holds for U+0009..U+000D, U+001C..U+0020, U+0085 and
  U+00A0, and \<open>str.lower\<close> moves A..Z and U+00C0..U+00DE (without U+00D7) up by 32.
\<close>

definition is_space :: "char \<Rightarrow> bool" where
  "is_space c = (let n = (of_char c :: nat) in
     (9 \<le> n \<and> n \<le> 13) \<or> (28 \<le> n \<and> n \<le> 32) \<or> n = 133 \<or> n = 160)"

definition lower_char :: "char \<Rightarrow> char" where
  "lower_char c = (let n = (of_char c :: nat) in
     if (65 \<le> n \<and> n \<le> 90) \<or> (192 \<le> n \<and> n \<le> 222 \<and> n \<noteq> 215)
     then char_of (n + 32) else c)"

definition str_strip :: "string \<Rightarrow> string" where
  "str_strip s = rev (dropWhile is_space (rev (dropWhile is_space s)))"

definition str_lower :: "string \<Rightarrow> string" where
  "str_lower s = map lower_char s"

fun starts_with :: "string \<Rightarrow> string \<Rightarrow> bool" where
  "starts_with [] ys = True"
| "starts_with (x # xs) [] = False"
| "starts_with (x # xs) (y # ys) = (x = y \<and> starts_with xs ys)"

text \<open>\<open>is_substring a b\<close> is Python's \<open>a in b\<close> on strings.\<close>

fun is_substring :: "string \<Rightarrow> string \<Rightarrow> bool" where
  "is_substring xs [] = (xs = [])"
| "is_substring xs (y # ys) = (starts_with xs (y # ys) \<or> is_substring xs ys)"

section \<open>Response cache (src/core/response\_cache.py)\<close>

text \<open>
  A \<open>CacheEntry\<close> is a mutable object that \<open>set\<close> puts into the exact-match dictionary
  and, when an embedding was computed, into the semantic list as well: both hold the same
  object, and a hit through either increments the one \<open>hits\<close> field. The cache therefore
  keeps its entry objects in a store (\<open>objects\<close>, an entry's address is its index) and the
  two structures hold addresses. The exact-match dictionary is an association list in
  insertion order, as a Python \<open>dict\<close> is: \<open>AList.update\<close> replaces the value of a
  present key in place and appends an absent one. A response is any Python value, so
  \<open>None\<close> is one of them: the type of responses is \<open>'r option\<close>.
\<close>

record 'r CacheEntry =
  query :: string
  response :: "'r option"
  embedding :: "real list option"
  created_at :: real
  hits :: int
  ttl :: real

type_synonym addr = nat

record 'r ResponseCache =
  max_size :: int
  default_ttl :: real
  similarity_threshold :: real
  enable_semantic :: bool
  objects :: "'r CacheEntry list"
  exact_cache :: "(string \<times> addr) list"
  semantic_cache :: "addr list"
  stats_hits :: int
  stats_misses :: int
  stats_semantic_hits :: int
  embeddings_loaded :: bool

text \<open>
  The embedding collaborator (\<open>src.rag.embeddings\<close>): \<open>get_embeddings\<close> returns the
  embedder or raises (\<open>False\<close>), \<open>embed_query\<close> returns a vector or raises (\<open>None\<close>).
\<close>

record 'w embedder =
  get_embeddings :: "'w \<Rightarrow> bool \<times> 'w"
  embed_query :: "string \<Rightarrow> 'w \<Rightarrow> real list option \<times> 'w"

text \<open>\<open>ResponseCache.__init__\<close>\<close>

definition new_cache :: "int \<Rightarrow> real \<Rightarrow> real \<Rightarrow> bool \<Rightarrow> 'r ResponseCache" where
  "new_cache ms t th sem =
     \<lparr>max_size = ms, default_ttl = t, similarity_threshold = th, enable_semantic = sem,
      objects = [], exact_cache = [], semantic_cache = [],
      stats_hits = 0, stats_misses = 0, stats_semantic_hits = 0,
      embeddings_loaded = False\<rparr>"

text \<open>
  \<open>_get_hash\<close>: the first 16 hexadecimal digits of the SHA-256 digest of the stripped,
  lower-cased query. The digest function of \<open>hashlib\<close> is the parameter \<open>sha256_hex\<close>.
\<close>

definition get_hash :: "(string \<Rightarrow> string) \<Rightarrow> string \<Rightarrow> string" where
  "get_hash sha256_hex q = take 16 (sha256_hex (str_lower (str_strip q)))"

text \<open>Python's truth value of \<open>list[float] | None\<close>.\<close>

fun truthy :: "real list option \<Rightarrow> bool" where
  "truthy None = False"
| "truthy (Some v) = (v \<noteq> [])"

text \<open>\<open>_get_embedding\<close>\<close>

definition get_embedding ::
  "'w embedder \<Rightarrow> 'r ResponseCache \<Rightarrow> string \<Rightarrow> 'w \<Rightarrow> real list option \<times> 'r ResponseCache \<times> 'w" where
  "get_embedding emb c q w =
     (if \<not> enable_semantic c then (None, c, w)
      else if \<not> embeddings_loaded c then
        (let (ok, w1) = get_embeddings emb w in
         if ok then (let (v, w2) = embed_query emb q w1
                     in (v, c\<lparr>embeddings_loaded := True\<rparr>, w2))
         else (None, c\<lparr>enable_semantic := False\<rparr>, w1))
      else (let (v, w1) = embed_query emb q w in (v, c, w1)))"

text \<open>
  \<open>_cosine_similarity\<close>. The score is the exact value on real vectors; the source computes
  it in floats, with rounding errors that are not modelled.
\<close>

definition cosine_similarity :: "real list \<Rightarrow> real list \<Rightarrow> real" where
  "cosine_similarity a b =
     (let dot_product = sum_list (map (\<lambda>(x, y). x * y) (zip a b));
          norm_a = sqrt (sum_list (map (\<lambda>x. x ^ 2) a));
          norm_b = sqrt (sum_list (map (\<lambda>x. x ^ 2) b))
      in if norm_a = 0 \<or> norm_b = 0 then 0 else dot_product / (norm_a * norm_b))"

text \<open>\<open>_cleanup_expired\<close>\<close>

definition cleanup_expired :: "'w clock \<Rightarrow> 'r ResponseCache \<Rightarrow> 'w \<Rightarrow> 'r ResponseCache \<times> 'w" where
  "cleanup_expired tm c w =
     (let (now, w1) = tm w;
          expired_keys = map fst (filter (\<lambda>(k, a). now - created_at (objects c ! a) > ttl (objects c ! a))
                                    (exact_cache c))
      in (c\<lparr>exact_cache := fold AList.delete expired_keys (exact_cache c),
            semantic_cache := filter (\<lambda>a. now - created_at (objects c ! a) \<le> ttl (objects c ! a))
                                (semantic_cache c)\<rparr>, w1))"

text \<open>
  \<open>_evict_lru\<close>: Python's \<open>sorted\<close> is stable and compares the key tuples
  lexicographically, as \<open>sort_key\<close> does on pairs.
\<close>

definition evict_lru :: "'r ResponseCache \<Rightarrow> 'r ResponseCache" where
  "evict_lru c =
     (if int (length (exact_cache c)) \<ge> max_size c then
        (let sorted_items = sort_key (\<lambda>(k, a). (hits (objects c ! a), created_at (objects c ! a)))
                              (exact_cache c);
             to_remove = max 1 (length sorted_items div 10)
         in c\<lparr>exact_cache := fold AList.delete (map fst (take to_remove sorted_items)) (exact_cache c)\<rparr>)
      else c)"

text \<open>The loop of \<open>get\<close> over the semantic list: the best match so far and its score.\<close>

definition best_step ::
  "'r CacheEntry list \<Rightarrow> real list \<Rightarrow> addr \<Rightarrow> addr option \<times> real \<Rightarrow> addr option \<times> real" where
  "best_step objs query_embedding a acc =
     (case acc of (best_match, best_score) \<Rightarrow>
        if truthy (embedding (objs ! a)) then
          (let score = cosine_similarity query_embedding (the (embedding (objs ! a)))
           in if score > best_score then (Some a, score) else (best_match, best_score))
        else (best_match, best_score))"

definition hit_entry :: "'r ResponseCache \<Rightarrow> addr \<Rightarrow> 'r ResponseCache" where
  "hit_entry c a =
     c\<lparr>objects := (objects c)[a := (objects c ! a)\<lparr>hits := hits (objects c ! a) + 1\<rparr>],
       stats_hits := stats_hits c + 1\<rparr>"

definition miss :: "'r ResponseCache \<Rightarrow> 'r ResponseCache" where
  "miss c = c\<lparr>stats_misses := stats_misses c + 1\<rparr>"

text \<open>\<open>get\<close>: the result \<open>None\<close> is Python's \<open>None\<close>, the miss.\<close>

definition get ::
  "'w clock \<Rightarrow> 'w embedder \<Rightarrow> (string \<Rightarrow> string) \<Rightarrow> 'r ResponseCache \<Rightarrow> string \<Rightarrow> 'w
     \<Rightarrow> 'r option \<times> 'r ResponseCache \<times> 'w" where
  "get tm emb sha256_hex c q w =
     (let (c1, w1) = cleanup_expired tm c w;
          query_hash = get_hash sha256_hex q
      in case map_of (exact_cache c1) query_hash of
           Some a \<Rightarrow> (response (objects c1 ! a), hit_entry c1 a, w1)
         | None \<Rightarrow>
             if enable_semantic c1 \<and> semantic_cache c1 \<noteq> [] then
               (let (query_embedding, c2, w2) = get_embedding emb c1 q w1 in
                if truthy query_embedding then
                  (let (best_match, best_score) =
                         fold (best_step (objects c2) (the query_embedding)) (semantic_cache c2) (None, 0)
                   in case best_match of
                        Some a \<Rightarrow>
                          if best_score \<ge> similarity_threshold c2 then
                            (response (objects c2 ! a),
                             (hit_entry c2 a)\<lparr>stats_semantic_hits := stats_semantic_hits c2 + 1\<rparr>, w2)
                          else (None, miss c2, w2)
                      | None \<Rightarrow> (None, miss c2, w2))
                else (None, miss c2, w2))
             else (None, miss c1, w1))"

text \<open>
  \<open>set\<close>: evict, hash, build the entry (its \<open>created_at\<close> reads the clock), store it, and
  with semantic mode on give it its embedding and append it to the semantic list. The
  argument \<open>ttl_arg\<close> is the optional \<open>ttl\<close>; \<open>ttl or self.ttl\<close> takes the default for
  \<open>None\<close> and for zero.
\<close>

definition set_entry ::
  "'w clock \<Rightarrow> 'w embedder \<Rightarrow> (string \<Rightarrow> string) \<Rightarrow> 'r ResponseCache \<Rightarrow> string \<Rightarrow> 'r option
     \<Rightarrow> real option \<Rightarrow> 'w \<Rightarrow> 'r ResponseCache \<times> 'w" where
  "set_entry tm emb sha256_hex c q r ttl_arg w =
     (let c1 = evict_lru c;
          query_hash = get_hash sha256_hex q;
          (now, w1) = tm w;
          entry = \<lparr>query = q, response = r, embedding = None, created_at = now, hits = 0,
                   ttl = (case ttl_arg of None \<Rightarrow> default_ttl c1
                          | Some t \<Rightarrow> if t = 0 then default_ttl c1 else t)\<rparr>;
          a = length (objects c1);
          c2 = c1\<lparr>objects := objects c1 @ [entry],
                  exact_cache := AList.update query_hash a (exact_cache c1)\<rparr>
      in if enable_semantic c2 then
           (let (v, c3, w2) = get_embedding emb c2 q w1;
                c4 = c3\<lparr>objects := (objects c3)[a := (objects c3 ! a)\<lparr>embedding := v\<rparr>]\<rparr>
            in if truthy v then (c4\<lparr>semantic_cache := semantic_cache c4 @ [a]\<rparr>, w2)
               else (c4, w2))
         else (c2, w1))"

text \<open>\<open>invalidate\<close> and \<open>clear\<close>\<close>

definition invalidate :: "(string \<Rightarrow> string) \<Rightarrow> 'r ResponseCache \<Rightarrow> string \<Rightarrow> 'r ResponseCache" where
  "invalidate sha256_hex c q =
     (let query_hash = get_hash sha256_hex q
      in if query_hash \<in> fst ` set (exact_cache c)
         then c\<lparr>exact_cache := AList.delete query_hash (exact_cache c)\<rparr> else c)"

definition clear :: "'r ResponseCache \<Rightarrow> 'r ResponseCache" where
  "clear c = c\<lparr>exact_cache := [], semantic_cache := []\<rparr>"

text \<open>A run of \<open>set\<close> calls, each with its query, response and optional \<open>ttl\<close>.\<close>

fun set_all ::
  "'w clock \<Rightarrow> 'w embedder \<Rightarrow> (string \<Rightarrow> string) \<Rightarrow> 'r ResponseCache
     \<Rightarrow> (string \<times> 'r option \<times> real option) list \<Rightarrow> 'w \<Rightarrow> 'r ResponseCache \<times> 'w" where
  "set_all tm emb sha256_hex c [] w = (c, w)"
| "set_all tm emb sha256_hex c ((q, r, t) # rest) w =
     (let (c', w') = set_entry tm emb sha256_hex c q r t w
      in set_all tm emb sha256_hex c' rest w')"

section \<open>Floating point\<close>

text \<open>
  The weights of an experiment and the bucket of a session are Python \<open>float\<close>s, IEEE 754
  binary64 numbers, and the outcome of \<open>create_experiment\<close>, \<open>update_traffic\<close> and
  \<open>get_variant\<close> depends on how sums of them round and on what a NaN does. They are
  modelled as such: a \<open>pyfloat\<close> is a finite value (the real number it denotes), an
  infinity or NaN; an arithmetic result is the exact result rounded to the nearest
  binary64 number, ties to even, with overflow to an infinity; a comparison with NaN is
  false. The sign of a zero is not kept: no modelled function tells \<open>-0.0\<close> from \<open>0.0\<close>.
\<close>

datatype pyfloat = Finite real | PosInf | NegInf | NaN

definition pow2 :: "int \<Rightarrow> real" where
  "pow2 e = (if 0 \<le> e then 2 ^ nat e else 1 / 2 ^ nat (- e))"

text \<open>The nearest integer, a tie going to the even one.\<close>

definition round_half_even :: "real \<Rightarrow> int" where
  "round_half_even x =
     (let f = \<lfloor>x\<rfloor>; d = x - of_int f
      in if d < 1 / 2 then f else if d > 1 / 2 then f + 1 else if even f then f else f + 1)"

text \<open>The exponent \<open>e\<close> with \<open>2 ^ e \<le> |x| < 2 ^ (e + 1)\<close>, for \<open>x\<close> other than 0.\<close>

definition binade :: "real \<Rightarrow> int" where
  "binade x = \<lfloor>log 2 \<bar>x\<bar>\<rfloor>"

text \<open>
  Rounding to binary64: 53 significant bits, so the spacing of the representable numbers
  around \<open>x\<close> is \<open>2 ^ (e - 52)\<close>, with \<open>e\<close> the binade of \<open>x\<close> but no less than \<open>-1022\<close>
  (below that the numbers are subnormal and evenly spaced); a result of magnitude
  \<open>2 ^ 1024\<close> is an overflow.
\<close>

definition round_double :: "real \<Rightarrow> pyfloat" where
  "round_double x =
     (if x = 0 then Finite 0
      else
        (let e = max (binade x) (- 1022);
             ulp = pow2 (e - 52);
             y = of_int (round_half_even (x / ulp)) * ulp
         in if y \<ge> pow2 1024 then PosInf
            else if y \<le> - pow2 1024 then NegInf
            else Finite y))"

text \<open>Python's \<open>a + b\<close>, \<open>-a\<close>, \<open>a - b\<close>, \<open>abs(a)\<close>, \<open>a < b\<close>, \<open>a > b\<close> and \<open>a <= b\<close> on floats.\<close>

fun fadd :: "pyfloat \<Rightarrow> pyfloat \<Rightarrow> pyfloat" where
  "fadd NaN b = NaN"
| "fadd a NaN = NaN"
| "fadd PosInf NegInf = NaN"
| "fadd NegInf PosInf = NaN"
| "fadd PosInf b = PosInf"
| "fadd a PosInf = PosInf"
| "fadd NegInf b = NegInf"
| "fadd a NegInf = NegInf"
| "fadd (Finite a) (Finite b) = round_double (a + b)"

fun fneg :: "pyfloat \<Rightarrow> pyfloat" where
  "fneg (Finite a) = Finite (- a)"
| "fneg PosInf = NegInf"
| "fneg NegInf = PosInf"
| "fneg NaN = NaN"

definition fsub :: "pyfloat \<Rightarrow> pyfloat \<Rightarrow> pyfloat" where
  "fsub a b = fadd a (fneg b)"

fun fabs :: "pyfloat \<Rightarrow> pyfloat" where
  "fabs (Finite a) = Finite \<bar>a\<bar>"
| "fabs PosInf = PosInf"
| "fabs NegInf = PosInf"
| "fabs NaN = NaN"

fun flt :: "pyfloat \<Rightarrow> pyfloat \<Rightarrow> bool" where
  "flt NaN b = False"
| "flt a NaN = False"
| "flt (Finite a) (Finite b) = (a < b)"
| "flt a NegInf = False"
| "flt PosInf b = False"
| "flt NegInf b = True"
| "flt a PosInf = True"

definition fgt :: "pyfloat \<Rightarrow> pyfloat \<Rightarrow> bool" where
  "fgt a b = flt b a"

fun fle :: "pyfloat \<Rightarrow> pyfloat \<Rightarrow> bool" where
  "fle NaN b = False"
| "fle a NaN = False"
| "fle (Finite a) (Finite b) = (a \<le> b)"
| "fle NegInf b = True"
| "fle a PosInf = True"
| "fle a NegInf = False"
| "fle PosInf b = False"

text \<open>
  The builtin \<open>sum\<close> on a list of floats, with its default start value, the int 0. It
  belongs to the interpreter, not to the program, and the functions that call it take it
  as the parameter \<open>py_sum\<close>. Two instances are given. CPython up to 3.11 adds the items
  from the left, each addition rounded: \<open>sum_left\<close>. CPython from 3.12 on adds the first
  item to the start value and the remaining ones as before, while it accumulates the
  rounding errors of these additions in a compensation term (Neumaier's summation) that
  it adds at the end, when it is finite and not zero: \<open>sum_compensated\<close>.
\<close>

definition sum_left :: "pyfloat list \<Rightarrow> pyfloat" where
  "sum_left ws = foldl fadd (Finite 0) ws"

fun is_finite :: "pyfloat \<Rightarrow> bool" where
  "is_finite (Finite a) = True"
| "is_finite a = False"

fun neumaier :: "pyfloat list \<Rightarrow> pyfloat \<Rightarrow> pyfloat \<Rightarrow> pyfloat" where
  "neumaier [] f_result c = (if c \<noteq> Finite 0 \<and> is_finite c then fadd f_result c else f_result)"
| "neumaier (x # xs) f_result c =
     (let t = fadd f_result x
      in neumaier xs t
           (if fle (fabs x) (fabs f_result) then fadd c (fadd (fsub f_result t) x)
            else fadd c (fadd (fsub x t) f_result)))"

fun sum_compensated :: "pyfloat list \<Rightarrow> pyfloat" where
  "sum_compensated [] = Finite 0"
| "sum_compensated (x # xs) = neumaier xs (fadd (Finite 0) x) (Finite 0)"

section \<open>A/B testing (src/core/ab\_testing.py)\<close>

text \<open>
  The \<open>variants\<close> dictionary of an experiment is an association list in declared
  (insertion) order; its weights are floats, as the annotation \<open>dict[str, float]\<close> says.
  The experiments of a manager are a map from names.
\<close>

record Experiment =
  exp_name :: string
  variants :: "(string \<times> pyfloat) list"
  enabled :: bool
  exp_created_at :: real
  description :: string

record 'm ExperimentResult =
  experiment_name :: string
  variant :: string
  session_id :: string
  metrics :: 'm
  timestamp :: real

record 'm ABTestManager =
  experiments :: "string \<rightharpoonup> Experiment"
  results :: "'m ExperimentResult list"

text \<open>
  The two \<open>ValueError\<close>s of the module, told apart by what their message reports, and the
  \<open>IndexError\<close> of indexing an empty list of keys.
\<close>

datatype value_error = WeightSum pyfloat | NoSuchExperiment string

datatype ab_error = ValueError value_error | IndexError

text \<open>
  \<open>create_experiment\<close>. The test is \<open>abs(total_weight - 1.0) > 0.01\<close> on floats; the
  literal \<open>0.01\<close> is the binary64 number nearest to 1/100.
\<close>

definition create_experiment ::
  "(pyfloat list \<Rightarrow> pyfloat) \<Rightarrow> 'w clock \<Rightarrow> 'm ABTestManager \<Rightarrow> string
     \<Rightarrow> (string \<times> pyfloat) list \<Rightarrow> string \<Rightarrow> 'w
     \<Rightarrow> (ab_error + Experiment) \<times> 'm ABTestManager \<times> 'w" where
  "create_experiment py_sum tm m nm vs descr w =
     (let total_weight = py_sum (map snd vs)
      in if fgt (fabs (fsub total_weight (Finite 1))) (round_double (1 / 100))
         then (Inl (ValueError (WeightSum total_weight)), m, w)
         else
           (let (t, w') = tm w;
                experiment = \<lparr>exp_name = nm, variants = vs, enabled = True,
                              exp_created_at = t, description = descr\<rparr>
            in (Inr experiment, m\<lparr>experiments := (experiments m)(nm \<mapsto> experiment)\<rparr>, w')))"

text \<open>The loop of \<open>get_variant\<close> over the variants, with the cumulative weight so far.\<close>

fun walk_variants :: "(string \<times> pyfloat) list \<Rightarrow> pyfloat \<Rightarrow> pyfloat \<Rightarrow> string option" where
  "walk_variants [] bucket cumulative = None"
| "walk_variants ((v, weight) # rest) bucket cumulative =
     (if flt bucket (fadd cumulative weight) then Some v
      else walk_variants rest bucket (fadd cumulative weight))"

text \<open>
  \<open>get_variant\<close>. The parameter \<open>md5_int\<close> is
  \<open>int(hashlib.md5(s.encode()).hexdigest(), 16)\<close> as a function of the string \<open>s\<close>. The
  bucket is the quotient of two ints, which Python rounds once, to the nearest float.
\<close>

definition get_variant ::
  "(string \<Rightarrow> nat) \<Rightarrow> 'm ABTestManager \<Rightarrow> string \<Rightarrow> string \<Rightarrow> ab_error + string" where
  "get_variant md5_int m nm sid =
     (case experiments m nm of
        None \<Rightarrow> Inr ''default''
      | Some experiment \<Rightarrow>
          if \<not> enabled experiment then
            (case variants experiment of [] \<Rightarrow> Inl IndexError | (v, _) # _ \<Rightarrow> Inr v)
          else
            (let hash_input = nm @ '':'' @ sid;
                 hash_value = md5_int hash_input;
                 bucket = round_double (real (hash_value mod 10000) / 10000)
             in case walk_variants (variants experiment) bucket (Finite 0) of
                  Some v \<Rightarrow> Inr v
                | None \<Rightarrow> (case variants experiment of [] \<Rightarrow> Inl IndexError
                            | _ # _ \<Rightarrow> Inr (fst (last (variants experiment))))))"

text \<open>\<open>update_traffic\<close> and \<open>enable_experiment\<close>\<close>

definition update_traffic ::
  "(pyfloat list \<Rightarrow> pyfloat) \<Rightarrow> 'm ABTestManager \<Rightarrow> string \<Rightarrow> (string \<times> pyfloat) list
     \<Rightarrow> (ab_error + unit) \<times> 'm ABTestManager" where
  "update_traffic py_sum m nm vs =
     (case experiments m nm of
        None \<Rightarrow> (Inl (ValueError (NoSuchExperiment nm)), m)
      | Some experiment \<Rightarrow>
          (let total_weight = py_sum (map snd vs)
           in if fgt (fabs (fsub total_weight (Finite 1))) (round_double (1 / 100))
              then (Inl (ValueError (WeightSum total_weight)), m)
              else (Inr (), m\<lparr>experiments := (experiments m)(nm \<mapsto> experiment\<lparr>variants := vs\<rparr>)\<rparr>)))"

definition enable_experiment :: "'m ABTestManager \<Rightarrow> string \<Rightarrow> bool \<Rightarrow> 'm ABTestManager" where
  "enable_experiment m nm en =
     (case experiments m nm of
        None \<Rightarrow> m
      | Some experiment \<Rightarrow> m\<lparr>experiments := (experiments m)(nm \<mapsto> experiment\<lparr>enabled := en\<rparr>)\<rparr>)"

text \<open>
  The allocation as the specification words it: the first variant, in declared order,
  whose cumulative weight exceeds the bucket. The cumulative weight of a variant is what
  the floats of the weights up to and including its own add up to, taken in declared
  order from 0.0, and it exceeds the bucket when the bucket is less than it as a float.
\<close>

definition first_exceeding :: "(string \<times> pyfloat) list \<Rightarrow> pyfloat \<Rightarrow> string option" where
  "first_exceeding vs bucket =
     map_option (\<lambda>i. fst (vs ! i))
       (find (\<lambda>i. flt bucket (foldl fadd (Finite 0) (map snd (take (Suc i) vs)))) [0..<length vs])"

text \<open>
  \<open>_init_default_experiments\<close> and \<open>ABTestManager.__init__\<close>. The three description
  literals of the source are not ASCII; they are the parameter \<open>descrs\<close>. A \<open>ValueError\<close>
  of one of the three creations would leave the constructor.
\<close>

definition init_default_experiments ::
  "(pyfloat list \<Rightarrow> pyfloat) \<Rightarrow> 'w clock \<Rightarrow> string \<times> string \<times> string \<Rightarrow> 'm ABTestManager \<Rightarrow> 'w
     \<Rightarrow> (ab_error + unit) \<times> 'm ABTestManager \<times> 'w" where
  "init_default_experiments py_sum tm descrs m w =
     (let (d1, d2, d3) = descrs
      in case create_experiment py_sum tm m ''llm_provider''
                [(''dashscope'', Finite 1), (''openai'', Finite 0)] d1 w of
           (Inl e, m1, w1) \<Rightarrow> (Inl e, m1, w1)
         | (Inr _, m1, w1) \<Rightarrow>
             (case create_experiment py_sum tm m1 ''prompt_version''
                      [(''v1'', Finite 1), (''v2'', Finite 0)] d2 w1 of
                (Inl e, m2, w2) \<Rightarrow> (Inl e, m2, w2)
              | (Inr _, m2, w2) \<Rightarrow>
                  (case create_experiment py_sum tm m2 ''cache_enabled''
                           [(''enabled'', Finite 1), (''disabled'', Finite 0)] d3 w2 of
                     (Inl e, m3, w3) \<Rightarrow> (Inl e, m3, w3)
                   | (Inr _, m3, w3) \<Rightarrow> (Inr (), m3, w3))))"

definition new_manager ::
  "(pyfloat list \<Rightarrow> pyfloat) \<Rightarrow> 'w clock \<Rightarrow> string \<times> string \<times> string \<Rightarrow> 'w
     \<Rightarrow> (ab_error + 'm ABTestManager) \<times> 'w" where
  "new_manager py_sum tm descrs w =
     (case init_default_experiments py_sum tm descrs \<lparr>experiments = Map.empty, results = []\<rparr> w of
        (Inl e, m, w') \<Rightarrow> (Inl e, w')
      | (Inr _, m, w') \<Rightarrow> (Inr m, w'))"

section \<open>Intent dispatcher (src/graphs/customer\_service\_graph.py)\<close>

definition valid_agents :: "string list" where
  "valid_agents = [''ProductAgent'', ''OrderAgent'', ''AfterSalesAgent'', ''ChitchatAgent'']"

text \<open>
  The part of \<open>SupervisorAgent.route\<close> after the model has answered: \<open>content\<close> is
  \<open>response.content\<close>.
\<close>

definition route_content :: "string \<Rightarrow> string" where
  "route_content content =
     (let agent_name = str_strip content
      in case find (\<lambda>valid_agent. is_substring (str_lower valid_agent) (str_lower agent_name))
                valid_agents of
           Some valid_agent \<Rightarrow> valid_agent
         | None \<Rightarrow> ''ChitchatAgent'')"

text \<open>
  \<open>SupervisorAgent.route\<close>: \<open>routing_prompt\<close> is \<open>ROUTING_PROMPT.format\<close> and \<open>llm\<close> is
  \<open>self.llm.invoke\<close>, which answers with the content or raises.
\<close>

definition route ::
  "(string \<Rightarrow> string) \<Rightarrow> (string \<Rightarrow> 'w \<Rightarrow> ('e + string) \<times> 'w) \<Rightarrow> string \<Rightarrow> 'w \<Rightarrow> ('e + string) \<times> 'w" where
  "route routing_prompt llm user_input w =
     (let (response, w') = llm (routing_prompt user_input) w
      in (map_sum id route_content response, w'))"

section \<open>Concrete inputs\<close>

text \<open>
  A world that is nothing but a clock: the number of readings so far, each reading ten
  seconds after the one before.
\<close>

definition tick_clock :: "nat clock" where
  "tick_clock w = (10 * real w, Suc w)"

text \<open>
  The breaker of scenario B (\<open>failure_threshold = 3\<close>, \<open>recovery_timeout = 30\<close>,
  \<open>half_open_max_calls = 2\<close>), without and with a fallback producer, an operation that
  answers, and the breaker after three failures in a row, which end at world \<open>4\<close> (three
  readings for the failure times, one for the logged change).
\<close>

definition demo_breaker :: "(nat, string, string) CircuitBreaker" where
  "demo_breaker = new_breaker 3 30 2 None ''llm''"

definition demo_fallback :: "(nat, string, string) callable" where
  "demo_fallback w = (Inr ''fallback'', w)"

definition demo_op :: "(nat, string, string) callable" where
  "demo_op w = (Inr ''should not reach'', Suc w)"

definition tripped_breaker :: "(nat, string, string) CircuitBreaker" where
  "tripped_breaker = fst (failures tick_clock [''e1'', ''e2'', ''e3''] demo_breaker 0)"


text \<open>
  The manager that the constructor returns when the three descriptions are empty and the
  clock reads 0, 10 and 20, the same manager after scenario A's experiment \<open>rollout\<close> was
  created in it with the float literals \<open>0.3\<close> and \<open>0.7\<close>, and the MD5 digests, as integers,
  of the two hash inputs used below.
\<close>

definition demo_manager :: "unit ABTestManager" where
  "demo_manager = \<lparr>experiments =
      [''llm_provider'' \<mapsto> \<lparr>exp_name = ''llm_provider'',
           variants = [(''dashscope'', Finite 1), (''openai'', Finite 0)], enabled = True,
           exp_created_at = 0, description = []\<rparr>,
       ''prompt_version'' \<mapsto> \<lparr>exp_name = ''prompt_version'',
           variants = [(''v1'', Finite 1), (''v2'', Finite 0)], enabled = True,
           exp_created_at = 10, description = []\<rparr>,
       ''cache_enabled'' \<mapsto> \<lparr>exp_name = ''cache_enabled'',
           variants = [(''enabled'', Finite 1), (''disabled'', Finite 0)], enabled = True,
           exp_created_at = 20, description = []\<rparr>],
     results = []\<rparr>"

definition rollout_manager :: "unit ABTestManager" where
  "rollout_manager =
     fst (snd (create_experiment sum_left tick_clock demo_manager ''rollout''
                 [(''A'', round_double (3 / 10)), (''B'', round_double (7 / 10))] [] 3))"

definition demo_md5 :: "string \<Rightarrow> nat" where
  "demo_md5 s =
     (if s = ''rollout:s1'' then 274250819110261987108313405694773794672
      else if s = ''rollout:s5'' then 245602763904600626302243917384084072206
      else 0)"

text \<open>
  The SHA-256 digests, in hexadecimal, of the normalised queries used below; an embedding
  collaborator that loads and gives every query the vector \<open>[1, 0]\<close>; the cache that
  \<open>get_cache\<close> builds; the same with semantic mode on; a cache with \<open>max_size = 0\<close>;
  and one with \<open>max_size = 2\<close>.
\<close>

definition demo_sha256 :: "string \<Rightarrow> string" where
  "demo_sha256 s =
     (if s = ''hello'' then ''2cf24dba5fb0a30e26e83b2ac5b9e29e1b161e5c1fa7425e73043362938b9824''
      else if s = ''bye'' then ''b49f425a7e1f9cff3856329ada223f2f9d368f15a00cf48df16ca95986137fe8''
      else if s = ''a'' then ''ca978112ca1bbdcafac231b39a23dc4da786eff8147c4e72b9807785afee48bb''
      else if s = ''b'' then ''3e23e8160039594a33894f6564e1b1348bbd7a0088d42c4acb73eeaed59c009d''
      else if s = ''c'' then ''2e7d2c03a9507ae265ecf5b5356885a53393a2029d241394997265a1a25aefc6''
      else [])"

definition demo_embedder :: "nat embedder" where
  "demo_embedder = \<lparr>get_embeddings = (\<lambda>w. (True, w)), embed_query = (\<lambda>q w. (Some [1, 0], w))\<rparr>"


definition semantic_demo_cache :: "string ResponseCache" where
  "semantic_demo_cache = new_cache 1000 3600 (95 / 100) True"

definition zero_size_cache :: "string ResponseCache" where
  "zero_size_cache = new_cache 0 3600 (95 / 100) False"

definition small_cache :: "string ResponseCache" where
  "small_cache = new_cache 2 3600 (95 / 100) False"

section \<open>Circuit breaker: what the state machine does\<close>

subsection \<open>Configuration is never touched\<close>

lemma transition_to_keeps_config:
  "failure_threshold (fst (transition_to tm s b w)) = failure_threshold b"
  "recovery_timeout (fst (transition_to tm s b w)) = recovery_timeout b"
  "half_open_max_calls (fst (transition_to tm s b w)) = half_open_max_calls b"
  "fallback (fst (transition_to tm s b w)) = fallback b"
  "name (fst (transition_to tm s b w)) = name b"
  by (simp_all add: transition_to_def Let_def case_prod_beta)

lemma state_keeps_config:
  "fallback (fst (snd (state tm b w))) = fallback b"
  "name (fst (snd (state tm b w))) = name b"
  by (simp_all add: state_def Let_def transition_to_def case_prod_beta)

subsection \<open>Concrete runs\<close>

lemma demo_breaker_fields:
  "state_field demo_breaker = CLOSED"
  "consecutive_failures (stats_field demo_breaker) = 0"
  "failure_threshold demo_breaker = 3"
  "half_open_max_calls demo_breaker = 2"
  by (simp_all add: demo_breaker_def new_breaker_def new_stats_def)

lemma two_failures_run:
  "failures tick_clock [''e1'', ''e2''] demo_breaker 0 =
     (demo_breaker\<lparr>stats_field := \<lparr>total_calls = 2, success_count = 0, failure_count = 2,
        consecutive_failures = 2, last_failure_time = 10, state_changes = []\<rparr>\<rparr>, 2)"
  by (simp add: demo_breaker_def new_breaker_def new_stats_def record_failure_def
      transition_to_def tick_clock_def Let_def)

lemma tripped_breaker_run:
  "failures tick_clock [''e1'', ''e2'', ''e3''] demo_breaker 0 =
     (demo_breaker\<lparr>state_field := OPEN,
        stats_field := \<lparr>total_calls = 3, success_count = 0, failure_count = 3,
          consecutive_failures = 3, last_failure_time = 20,
          state_changes = [\<lparr>sc_from = CLOSED, sc_to = OPEN, sc_time = 30\<rparr>]\<rparr>\<rparr>, 4)"
  by (simp add: demo_breaker_def new_breaker_def new_stats_def record_failure_def
      transition_to_def tick_clock_def Let_def)

lemma tripped_breaker_value:
  "tripped_breaker = demo_breaker\<lparr>state_field := OPEN,
        stats_field := \<lparr>total_calls = 3, success_count = 0, failure_count = 3,
          consecutive_failures = 3, last_failure_time = 20,
          state_changes = [\<lparr>sc_from = CLOSED, sc_to = OPEN, sc_time = 30\<rparr>]\<rparr>\<rparr>"
  by (simp only: tripped_breaker_def tripped_breaker_run fst_conv)



subsection \<open>A call on an open breaker\<close>

lemma tripped_breaker_observed:
  "state tick_clock tripped_breaker 4 = (OPEN, tripped_breaker, 5)"
  by (simp add: tripped_breaker_value demo_breaker_def new_breaker_def new_stats_def
      state_def tick_clock_def Let_def)

text \<open>
  C1. When the state observed at the start of \<open>call_sync\<close> or \<open>call_async\<close> is
  \<open>OPEN\<close>, the result is built from the breaker and the world after the state check
  alone, whatever the operation is: without a fallback it is \<open>CircuitOpenError\<close> and the
  world is the one the state check left; with a fallback it is what the fallback producer
  returns or raises, run in that world. The operation is never applied.
\<close>

theorem open_call_skips_operation:
  assumes "fst (state tm b w) = OPEN"
  shows "call_sync tm b op w =
           (let b1 = fst (snd (state tm b w)); w1 = snd (snd (state tm b w)) in
            case fallback b of
              None \<Rightarrow> (Inl (CircuitOpenError (open_message (name b))), b1, w1)
            | Some fb \<Rightarrow> (fst (run_fallback fb w1), b1, snd (run_fallback fb w1)))
       \<and> call_async tm b is_coroutine op w =
           (let b1 = fst (snd (state tm b w)); w1 = snd (snd (state tm b w)) in
            case fallback b of
              None \<Rightarrow> (Inl (CircuitOpenError (open_message (name b))), b1, w1)
            | Some fb \<Rightarrow> (fst (run_fallback fb w1), b1, snd (run_fallback fb w1)))"
proof -
  obtain st b1 w1 where s: "state tm b w = (st, b1, w1)"
    by (cases "state tm b w") auto
  from assms s have st: "st = OPEN" by simp
  from s have fb: "fallback b1 = fallback b" and nm: "name b1 = name b"
    using state_keeps_config [of tm b w] by simp_all
  show ?thesis
    by (simp add: call_sync_def call_async_def s st fb nm Let_def
        split: option.splits prod.splits)
qed

theorem open_call_skips_operation_witness:
  "fst (state tick_clock tripped_breaker 4) = OPEN
   \<and> call_sync tick_clock tripped_breaker demo_op 4
       = (Inl (CircuitOpenError (open_message ''llm'')), tripped_breaker, 5)
   \<and> call_async tick_clock tripped_breaker True demo_op 4
       = (Inl (CircuitOpenError (open_message ''llm'')), tripped_breaker, 5)
   \<and> fst (state tick_clock (tripped_breaker\<lparr>fallback := Some demo_fallback\<rparr>) 4) = OPEN
   \<and> call_sync tick_clock (tripped_breaker\<lparr>fallback := Some demo_fallback\<rparr>) demo_op 4
       = (Inr ''fallback'', tripped_breaker\<lparr>fallback := Some demo_fallback\<rparr>, 5)"
proof -
  have h: "fst (state tick_clock tripped_breaker 4) = OPEN"
    by (simp add: tripped_breaker_observed)
  have s': "state tick_clock (tripped_breaker\<lparr>fallback := Some demo_fallback\<rparr>) 4
              = (OPEN, tripped_breaker\<lparr>fallback := Some demo_fallback\<rparr>, 5)"
    by (simp add: tripped_breaker_value demo_breaker_def new_breaker_def new_stats_def
        state_def tick_clock_def Let_def)
  have h': "fst (state tick_clock (tripped_breaker\<lparr>fallback := Some demo_fallback\<rparr>) 4) = OPEN"
    by (simp add: s')
  have c: "fallback tripped_breaker = None" "name tripped_breaker = ''llm''"
    by (simp_all add: tripped_breaker_value demo_breaker_def new_breaker_def)
  from open_call_skips_operation [of tick_clock tripped_breaker 4 demo_op True, OF h]
    open_call_skips_operation
      [of tick_clock "tripped_breaker\<lparr>fallback := Some demo_fallback\<rparr>" 4 demo_op True, OF h']
  show ?thesis
    by (simp add: h h' c tripped_breaker_observed s' run_fallback_def demo_fallback_def Let_def)
qed

subsection \<open>From closed to open\<close>

lemma record_failure_closed:
  assumes "state_field b = CLOSED"
  shows "consecutive_failures (stats_field (fst (record_failure tm e b w)))
           = consecutive_failures (stats_field b) + 1"
    and "failure_threshold (fst (record_failure tm e b w)) = failure_threshold b"
    and "state_field (fst (record_failure tm e b w))
           = (if consecutive_failures (stats_field b) + 1 \<ge> failure_threshold b
              then OPEN else CLOSED)"
  using assms
  by (simp_all add: record_failure_def transition_to_def Let_def case_prod_beta)

lemma failures_below_threshold:
  "state_field b = CLOSED \<Longrightarrow>
   consecutive_failures (stats_field b) + int (length es) < failure_threshold b \<Longrightarrow>
   state_field (fst (failures tm es b w)) = CLOSED \<and>
   consecutive_failures (stats_field (fst (failures tm es b w)))
     = consecutive_failures (stats_field b) + int (length es) \<and>
   failure_threshold (fst (failures tm es b w)) = failure_threshold b"
proof (induction es arbitrary: b w)
  case Nil
  then show ?case by simp
next
  case (Cons e es)
  obtain b' w' where r: "record_failure tm e b w = (b', w')"
    by (cases "record_failure tm e b w") auto
  from record_failure_closed [OF Cons.prems(1), of tm e w] r Cons.prems(2)
  have b': "state_field b' = CLOSED"
       "consecutive_failures (stats_field b') = consecutive_failures (stats_field b) + 1"
       "failure_threshold b' = failure_threshold b"
    by simp_all
  from Cons.IH [of b' w'] b' Cons.prems(2) show ?case
    by (simp add: r)
qed

lemma failures_snoc:
  "failures tm (es @ [e]) b w =
     (let (b', w') = failures tm es b w in record_failure tm e b' w')"
  by (induction es arbitrary: b w) (simp_all add: Let_def case_prod_beta)

lemma failures_reach_threshold:
  assumes c: "state_field b = CLOSED"
    and n: "es \<noteq> []"
    and t: "consecutive_failures (stats_field b) + int (length es) = failure_threshold b"
  shows "state_field (fst (failures tm es b w)) = OPEN"
proof -
  from n obtain es' e where es: "es = es' @ [e]"
    by (cases es rule: rev_cases) auto
  obtain b' w' where f: "failures tm es' b w = (b', w')"
    by (cases "failures tm es' b w") auto
  from t es have "consecutive_failures (stats_field b) + int (length es') < failure_threshold b"
    by simp
  from failures_below_threshold [OF c this, of tm w] f
  have b': "state_field b' = CLOSED"
    "consecutive_failures (stats_field b') = consecutive_failures (stats_field b) + int (length es')"
    "failure_threshold b' = failure_threshold b"
    by simp_all
  from record_failure_closed(3) [OF b'(1), of tm e w'] b' t es
  have "state_field (fst (record_failure tm e b' w')) = OPEN" by simp
  then show ?thesis by (simp add: es failures_snoc f)
qed

lemma record_success_resets:
  "consecutive_failures (stats_field (fst (record_success tm b w))) = 0"
  by (simp add: record_success_def transition_to_def Let_def case_prod_beta)

text \<open>
  C2. From \<open>CLOSED\<close> with the consecutive-failure counter at 0 and a threshold of at
  least 1 (the configuration the specification allows): a run of fewer recorded failures
  than \<open>failure_threshold\<close> leaves the stored state \<open>CLOSED\<close> with the counter at the
  length of the run, a run of exactly \<open>failure_threshold\<close> failures ends in \<open>OPEN\<close>, and
  one recorded success, on any breaker, puts the counter back to 0.
\<close>

theorem threshold_failures_open_breaker:
  assumes "state_field b = CLOSED"
    and "consecutive_failures (stats_field b) = 0"
    and "1 \<le> failure_threshold b"
  shows "(int (length es) < failure_threshold b \<longrightarrow>
            state_field (fst (failures tm es b w)) = CLOSED \<and>
            consecutive_failures (stats_field (fst (failures tm es b w))) = int (length es))
       \<and> (int (length es) = failure_threshold b \<longrightarrow>
            state_field (fst (failures tm es b w)) = OPEN)
       \<and> consecutive_failures (stats_field (fst (record_success tm b' w'))) = 0"
proof (intro conjI impI)
  assume l: "int (length es) < failure_threshold b"
  with failures_below_threshold [OF assms(1), of es tm w] assms(2)
  show "state_field (fst (failures tm es b w)) = CLOSED"
    and "consecutive_failures (stats_field (fst (failures tm es b w))) = int (length es)"
    by simp_all
next
  assume l: "int (length es) = failure_threshold b"
  with assms(3) have "es \<noteq> []" by auto
  from failures_reach_threshold [OF assms(1) this, of tm w] l assms(2)
  show "state_field (fst (failures tm es b w)) = OPEN" by simp
next
  show "consecutive_failures (stats_field (fst (record_success tm b' w'))) = 0"
    by (rule record_success_resets)
qed

theorem threshold_failures_open_breaker_witness:
  "state_field demo_breaker = CLOSED
   \<and> consecutive_failures (stats_field demo_breaker) = 0
   \<and> 1 \<le> failure_threshold demo_breaker
   \<and> int (length [''e1'', ''e2'']) < failure_threshold demo_breaker
   \<and> state_field (fst (failures tick_clock [''e1'', ''e2''] demo_breaker 0)) = CLOSED
   \<and> consecutive_failures (stats_field (fst (failures tick_clock [''e1'', ''e2''] demo_breaker 0))) = 2
   \<and> int (length [''e1'', ''e2'', ''e3'']) = failure_threshold demo_breaker
   \<and> state_field (fst (failures tick_clock [''e1'', ''e2'', ''e3''] demo_breaker 0)) = OPEN
   \<and> consecutive_failures (stats_field (fst (record_success tick_clock
         (fst (failures tick_clock [''e1'', ''e2''] demo_breaker 0)) 2))) = 0"
proof -
  have h: "state_field demo_breaker = CLOSED"
    "consecutive_failures (stats_field demo_breaker) = 0"
    "1 \<le> failure_threshold demo_breaker"
    by (simp_all add: demo_breaker_fields)
  from threshold_failures_open_breaker [of demo_breaker "[''e1'', ''e2'']" tick_clock 0
      "fst (failures tick_clock [''e1'', ''e2''] demo_breaker 0)" 2, OF h]
    threshold_failures_open_breaker [of demo_breaker "[''e1'', ''e2'', ''e3'']" tick_clock 0
      "fst (failures tick_clock [''e1'', ''e2''] demo_breaker 0)" 2, OF h]
  show ?thesis using h by (simp add: demo_breaker_fields)
qed

subsection \<open>From open to half-open and back\<close>














section \<open>Intent dispatcher: which handler a response selects\<close>

lemma starts_with_iff: "starts_with xs ys \<longleftrightarrow> (\<exists>s. ys = xs @ s)"
  by (induction xs ys rule: starts_with.induct) auto

lemma is_substring_iff: "is_substring xs ys \<longleftrightarrow> (\<exists>p s. ys = p @ xs @ s)"
proof (induction ys)
  case Nil
  then show ?case by simp
next
  case (Cons y ys)
  show ?case
  proof
    assume "is_substring xs (y # ys)"
    then consider "starts_with xs (y # ys)" | "is_substring xs ys" by auto
    then show "\<exists>p s. y # ys = p @ xs @ s"
    proof cases
      case 1
      then obtain s where "y # ys = xs @ s" by (auto simp: starts_with_iff)
      then have "y # ys = [] @ xs @ s" by simp
      then show ?thesis by blast
    next
      case 2
      with Cons.IH obtain p s where "ys = p @ xs @ s" by auto
      then have "y # ys = (y # p) @ xs @ s" by simp
      then show ?thesis by blast
    qed
  next
    assume "\<exists>p s. y # ys = p @ xs @ s"
    then obtain p s where e: "y # ys = p @ xs @ s" by auto
    show "is_substring xs (y # ys)"
    proof (cases p)
      case Nil
      with e have "starts_with xs (y # ys)" by (auto simp: starts_with_iff)
      then show ?thesis by simp
    next
      case (Cons a p')
      with e have "ys = p' @ xs @ s" by simp
      with Cons.IH have "is_substring xs ys" by blast
      then show ?thesis by simp
    qed
  qed
qed

lemma of_char_bound: "(of_char c :: nat) < 256"
  by (metis of_char_mod_256 mod_less_divisor zero_less_numeral)

lemma is_space_lower_char: "is_space (lower_char c) = is_space c"
proof -
  have b: "(of_char c :: nat) < 256" by (rule of_char_bound)
  show ?thesis
  proof (cases "(65 \<le> (of_char c :: nat) \<and> (of_char c :: nat) \<le> 90)
      \<or> (192 \<le> (of_char c :: nat) \<and> (of_char c :: nat) \<le> 222 \<and> (of_char c :: nat) \<noteq> 215)")
    case True
    then have "(of_char (char_of ((of_char c :: nat) + 32)) :: nat) = of_char c + 32"
      by (auto simp: of_char_of)
    with True show ?thesis
      by (auto simp: is_space_def lower_char_def Let_def)
  next
    case False
    then have "lower_char c = c" by (auto simp: lower_char_def Let_def)
    then show ?thesis by simp
  qed
qed

lemma str_lower_strip: "str_lower (str_strip s) = str_strip (str_lower s)"
proof -
  have c: "is_space \<circ> lower_char = is_space"
    by (rule ext) (simp add: is_space_lower_char)
  have d: "map lower_char (dropWhile is_space xs) = dropWhile is_space (map lower_char xs)" for xs
    by (simp add: dropWhile_map c)
  have "map lower_char (rev (dropWhile is_space (rev (dropWhile is_space s))))
      = rev (map lower_char (dropWhile is_space (rev (dropWhile is_space s))))"
    by (simp only: rev_map)
  also have "\<dots> = rev (dropWhile is_space (map lower_char (rev (dropWhile is_space s))))"
    by (simp only: d)
  also have "\<dots> = rev (dropWhile is_space (rev (map lower_char (dropWhile is_space s))))"
    by (simp only: rev_map)
  also have "\<dots> = rev (dropWhile is_space (rev (dropWhile is_space (map lower_char s))))"
    by (simp only: d)
  finally show ?thesis
    by (simp only: str_lower_def str_strip_def)
qed

lemma route_content_lowered:
  "route_content content =
     (case find (\<lambda>valid_agent. is_substring (str_lower valid_agent) (str_strip (str_lower content)))
             valid_agents of
        Some valid_agent \<Rightarrow> valid_agent
      | None \<Rightarrow> ''ChitchatAgent'')"
  by (simp add: route_content_def Let_def str_lower_strip)

lemmas string_eval =
  route_content_def valid_agents_def str_strip_def str_lower_def is_space_def lower_char_def Let_def
  char_of_def bit_Suc_0_iff

lemma route_exact_ids:
  "(case find (\<lambda>va. is_substring (str_lower va) (str_strip (str_lower ''ProductAgent''))) valid_agents of
      Some va \<Rightarrow> va | None \<Rightarrow> ''ChitchatAgent'') = ''ProductAgent''"
  "(case find (\<lambda>va. is_substring (str_lower va) (str_strip (str_lower ''OrderAgent''))) valid_agents of
      Some va \<Rightarrow> va | None \<Rightarrow> ''ChitchatAgent'') = ''OrderAgent''"
  "(case find (\<lambda>va. is_substring (str_lower va) (str_strip (str_lower ''AfterSalesAgent''))) valid_agents of
      Some va \<Rightarrow> va | None \<Rightarrow> ''ChitchatAgent'') = ''AfterSalesAgent''"
  "(case find (\<lambda>va. is_substring (str_lower va) (str_strip (str_lower ''ChitchatAgent''))) valid_agents of
      Some va \<Rightarrow> va | None \<Rightarrow> ''ChitchatAgent'') = ''ChitchatAgent''"
  by (simp_all add: string_eval)

lemma route_exact_match:
  assumes "v \<in> set valid_agents" and "str_lower content = str_lower v"
  shows "route_content content = v"
proof -
  from assms(1) consider "v = ''ProductAgent''" | "v = ''OrderAgent''"
    | "v = ''AfterSalesAgent''" | "v = ''ChitchatAgent''"
    by (auto simp: valid_agents_def)
  then show ?thesis
    by cases (simp_all only: route_content_lowered assms(2) route_exact_ids)
qed

lemma route_content_valid: "route_content content \<in> set valid_agents"
proof (cases "find (\<lambda>va. is_substring (str_lower va) (str_lower (str_strip content))) valid_agents")
  case None
  then show ?thesis by (simp add: route_content_def Let_def valid_agents_def)
next
  case (Some va)
  then have "va \<in> set valid_agents"
    by (auto simp: find_Some_iff)
  with Some show ?thesis by (simp add: route_content_def Let_def)
qed

lemma route_content_first:
  assumes "i < length valid_agents"
    and "is_substring (str_lower (valid_agents ! i)) (str_lower (str_strip content))"
    and "\<forall>j<i. \<not> is_substring (str_lower (valid_agents ! j)) (str_lower (str_strip content))"
  shows "route_content content = valid_agents ! i"
proof -
  from assms have "find (\<lambda>va. is_substring (str_lower va) (str_lower (str_strip content))) valid_agents
      = Some (valid_agents ! i)"
    by (auto simp: find_Some_iff)
  then show ?thesis by (simp add: route_content_def Let_def)
qed

lemma route_content_none:
  assumes "\<forall>v\<in>set valid_agents. \<not> is_substring (str_lower v) (str_lower (str_strip content))"
  shows "route_content content = ''ChitchatAgent''"
proof -
  from assms have "find (\<lambda>va. is_substring (str_lower va) (str_lower (str_strip content))) valid_agents
      = None"
    by (simp add: find_None_iff)
  then show ?thesis by (simp add: route_content_def Let_def)
qed

text \<open>
  C9, as the claim states it, fails in its second half: a response that is not equal to any
  valid identifier, even ignoring case, is not always sent to \<open>ChitchatAgent\<close>. The
  response \<open>ProductAgent.\<close> differs from all four identifiers and is routed to
  \<open>ProductAgent\<close>, because the identifier is looked for as a substring.
\<close>

theorem route_inexact_response_counterexample:
  "str_lower ''ProductAgent.'' \<noteq> str_lower ''ProductAgent''
   \<and> str_lower ''ProductAgent.'' \<noteq> str_lower ''OrderAgent''
   \<and> str_lower ''ProductAgent.'' \<noteq> str_lower ''AfterSalesAgent''
   \<and> str_lower ''ProductAgent.'' \<noteq> str_lower ''ChitchatAgent''
   \<and> route_content ''ProductAgent.'' = ''ProductAgent''
   \<and> route_content ''ProductAgent.'' \<noteq> ''ChitchatAgent''"
  by (simp add: string_eval)

text \<open>
  C9, amended. For every response text: (1) if it equals a valid handler identifier up to
  case, the dispatcher routes to that handler; (2) otherwise too the result is one of the
  four valid identifiers, so exactly one handler is selected; (3) the handler selected is
  the first identifier, in the order \<open>ProductAgent\<close>, \<open>OrderAgent\<close>, \<open>AfterSalesAgent\<close>,
  \<open>ChitchatAgent\<close>, whose lower-cased form occurs as a substring of the stripped,
  lower-cased response; (4) when none occurs it is \<open>ChitchatAgent\<close>.
\<close>

theorem route_content_resolves:
  "(v \<in> set valid_agents \<and> str_lower content = str_lower v \<longrightarrow> route_content content = v)
   \<and> route_content content \<in> set valid_agents
   \<and> (i < length valid_agents
        \<and> is_substring (str_lower (valid_agents ! i)) (str_lower (str_strip content))
        \<and> (\<forall>j<i. \<not> is_substring (str_lower (valid_agents ! j)) (str_lower (str_strip content)))
      \<longrightarrow> route_content content = valid_agents ! i)
   \<and> ((\<forall>v\<in>set valid_agents. \<not> is_substring (str_lower v) (str_lower (str_strip content)))
      \<longrightarrow> route_content content = ''ChitchatAgent'')"
  using route_exact_match [of v content] route_content_valid [of content]
    route_content_first [of i content] route_content_none [of content]
  by blast

theorem route_content_resolves_witness:
  "''OrderAgent'' \<in> set valid_agents
   \<and> str_lower ''ORDERAGENT'' = str_lower ''OrderAgent''
   \<and> route_content ''ORDERAGENT'' = ''OrderAgent''
   \<and> route_content ''ORDERAGENT'' \<in> set valid_agents
   \<and> (1::nat) < length valid_agents
   \<and> is_substring (str_lower (valid_agents ! 1)) (str_lower (str_strip ''ORDERAGENT''))
   \<and> \<not> is_substring (str_lower (valid_agents ! 0)) (str_lower (str_strip ''ORDERAGENT''))
   \<and> route_content ''ORDERAGENT'' = valid_agents ! 1
   \<and> \<not> is_substring (str_lower ''ProductAgent'') (str_lower (str_strip ''hello''))
   \<and> \<not> is_substring (str_lower ''OrderAgent'') (str_lower (str_strip ''hello''))
   \<and> \<not> is_substring (str_lower ''AfterSalesAgent'') (str_lower (str_strip ''hello''))
   \<and> \<not> is_substring (str_lower ''ChitchatAgent'') (str_lower (str_strip ''hello''))
   \<and> route_content ''hello'' = ''ChitchatAgent''"
proof -
  have a: "''OrderAgent'' \<in> set valid_agents"
    "str_lower ''ORDERAGENT'' = str_lower ''OrderAgent''"
    "(1::nat) < length valid_agents"
    "is_substring (str_lower (valid_agents ! 1)) (str_lower (str_strip ''ORDERAGENT''))"
    "\<not> is_substring (str_lower (valid_agents ! 0)) (str_lower (str_strip ''ORDERAGENT''))"
    by (simp_all add: string_eval)
  have j: "\<forall>j<(1::nat). \<not> is_substring (str_lower (valid_agents ! j)) (str_lower (str_strip ''ORDERAGENT''))"
    using a(5) by simp
  have n: "\<not> is_substring (str_lower ''ProductAgent'') (str_lower (str_strip ''hello''))"
    "\<not> is_substring (str_lower ''OrderAgent'') (str_lower (str_strip ''hello''))"
    "\<not> is_substring (str_lower ''AfterSalesAgent'') (str_lower (str_strip ''hello''))"
    "\<not> is_substring (str_lower ''ChitchatAgent'') (str_lower (str_strip ''hello''))"
    by (simp_all add: string_eval)
  have b: "\<forall>v\<in>set valid_agents. \<not> is_substring (str_lower v) (str_lower (str_strip ''hello''))"
    using n by (simp add: valid_agents_def)
  have o: "valid_agents ! 1 = ''OrderAgent''"
    by (simp add: valid_agents_def)
  from route_content_resolves [of "''OrderAgent''" "''ORDERAGENT''" 1]
    route_content_resolves [of "''OrderAgent''" "''hello''" 1]
  show ?thesis using a j n b o by simp
qed

section \<open>Floating point: evaluating the rounding\<close>

lemma pow2_pos: "0 < pow2 e"
  by (simp add: pow2_def)

lemma pow2_powr: "pow2 e = 2 powr of_int e"
proof (cases "0 \<le> e")
  case True
  then have "(2::real) powr of_int e = 2 powr real (nat e)" by simp
  also have "\<dots> = 2 ^ nat e" by (simp add: powr_realpow)
  finally show ?thesis using True by (simp add: pow2_def)
next
  case False
  then have "(2::real) powr of_int e = 2 powr (- real (nat (- e)))" by simp
  also have "\<dots> = 1 / 2 powr real (nat (- e))" by (simp add: powr_minus_divide)
  also have "\<dots> = 1 / 2 ^ nat (- e)" by (simp add: powr_realpow)
  finally show ?thesis using False by (simp add: pow2_def)
qed

lemma binade_eq:
  assumes "pow2 e \<le> \<bar>x\<bar>" and "\<bar>x\<bar> < pow2 (e + 1)"
  shows "binade x = e"
proof -
  from assms(1) pow2_pos [of e] have p: "0 < \<bar>x\<bar>" by linarith
  have "of_int e \<le> log 2 \<bar>x\<bar>" using assms(1) p by (simp add: le_log_iff pow2_powr)
  moreover have "log 2 \<bar>x\<bar> < of_int e + 1" using assms(2) p by (simp add: log_less_iff pow2_powr)
  ultimately show ?thesis unfolding binade_def by (simp add: floor_eq_iff)
qed

text \<open>
  The rounding of a number whose binade is known: \<open>y\<close> is the multiple of the spacing
  nearest to \<open>x\<close>.
\<close>

lemma round_double_binade:
  assumes "pow2 e \<le> \<bar>x\<bar>" and "\<bar>x\<bar> < pow2 (e + 1)" and "- 1022 \<le> e"
    and "y = of_int (round_half_even (x / pow2 (e - 52))) * pow2 (e - 52)"
    and "\<bar>y\<bar> < pow2 1024"
  shows "round_double x = Finite y"
proof -
  from assms(1) pow2_pos [of e] have nz: "x \<noteq> 0" by auto
  have b: "binade x = e" using assms(1,2) by (rule binade_eq)
  from assms(3) have m: "max e (- 1022) = e" by simp
  from assms(5) have "\<not> y \<ge> pow2 1024" and "\<not> y \<le> - pow2 1024" by auto
  then show ?thesis
    unfolding round_double_def b m Let_def assms(4) [symmetric] using nz by simp
qed

lemma flt_NaN [simp]: "flt a NaN = False" "flt NaN b = False"
  by (cases a, simp_all)

lemma fadd_NaN [simp]: "fadd a NaN = NaN" "fadd NaN b = NaN"
  by (cases a, simp_all)

lemma round_double_0 [simp]: "round_double 0 = Finite 0"
  by (simp add: round_double_def)

lemma round_double_1 [simp]: "round_double 1 = Finite 1"
  by (rule round_double_binade [where e = 0]) (simp_all add: pow2_def round_half_even_def)

text \<open>The float literals \<open>0.01\<close>, \<open>0.3\<close>, \<open>0.7\<close>, \<open>0.1\<close>, \<open>0.2\<close>, \<open>0.9\<close> and \<open>0.33\<close>.\<close>

lemma literal_0_01:
  "round_double (1 / 100) = Finite (5764607523034235 / 576460752303423488)"
  by (rule round_double_binade [where e = "- 7"]) (simp_all add: pow2_def round_half_even_def)

lemma literal_0_3:
  "round_double (3 / 10) = Finite (5404319552844595 / 18014398509481984)"
  by (rule round_double_binade [where e = "- 2"]) (simp_all add: pow2_def round_half_even_def)

lemma literal_0_7:
  "round_double (7 / 10) = Finite (3152519739159347 / 4503599627370496)"
  by (rule round_double_binade [where e = "- 1"]) (simp_all add: pow2_def round_half_even_def)

lemma literal_0_1:
  "round_double (1 / 10) = Finite (3602879701896397 / 36028797018963968)"
  by (rule round_double_binade [where e = "- 4"]) (simp_all add: pow2_def round_half_even_def)

lemma literal_0_2:
  "round_double (1 / 5) = Finite (3602879701896397 / 18014398509481984)"
  by (rule round_double_binade [where e = "- 3"]) (simp_all add: pow2_def round_half_even_def)

lemma literal_0_9:
  "round_double (9 / 10) = Finite (8106479329266893 / 9007199254740992)"
  by (rule round_double_binade [where e = "- 1"]) (simp_all add: pow2_def round_half_even_def)

lemma literal_0_33:
  "round_double (33 / 100) = Finite (5944751508129055 / 18014398509481984)"
  by (rule round_double_binade [where e = "- 2"]) (simp_all add: pow2_def round_half_even_def)

text \<open>The quotients \<open>4672 / 10000\<close> and \<open>2206 / 10000\<close>.\<close>

lemma quotient_4672:
  "round_double (292 / 625) = Finite (8416326983629983 / 18014398509481984)"
  by (rule round_double_binade [where e = "- 2"]) (simp_all add: pow2_def round_half_even_def)

lemma quotient_2206:
  "round_double (1103 / 5000) = Finite (7947952622383451 / 36028797018963968)"
  by (rule round_double_binade [where e = "- 3"]) (simp_all add: pow2_def round_half_even_def)

text \<open>
  Sums. \<open>0.0 + x\<close> is \<open>x\<close> for each of the literals; \<open>0.3 + 0.7\<close> and \<open>0.1 + 0.9\<close> are
  \<open>1.0\<close>; \<open>0.1 + 0.2\<close> is \<open>0.30000000000000004\<close>, above \<open>0.3\<close>, and adding \<open>0.7\<close> to it gives
  \<open>1.0\<close>; \<open>0.33 + 0.33 + 0.33\<close> is \<open>0.99\<close>, and \<open>0.99 - 1.0\<close> is
  \<open>-0.010000000000000009\<close>, exactly.
\<close>

lemma sum_0_3:
  "fadd (Finite 0) (Finite (5404319552844595 / 18014398509481984)) =
     Finite (5404319552844595 / 18014398509481984)"
  unfolding fadd.simps
  by (rule round_double_binade [where e = "- 2"]) (simp_all add: pow2_def round_half_even_def)

lemma sum_0_3_0_7:
  "fadd (Finite (5404319552844595 / 18014398509481984))
        (Finite (3152519739159347 / 4503599627370496)) = Finite 1"
  unfolding fadd.simps
  by (rule round_double_binade [where e = "- 1"]) (simp_all add: pow2_def round_half_even_def)

lemma sum_0_1:
  "fadd (Finite 0) (Finite (3602879701896397 / 36028797018963968)) =
     Finite (3602879701896397 / 36028797018963968)"
  unfolding fadd.simps
  by (rule round_double_binade [where e = "- 4"]) (simp_all add: pow2_def round_half_even_def)

lemma sum_0_1_0_9:
  "fadd (Finite (3602879701896397 / 36028797018963968))
        (Finite (8106479329266893 / 9007199254740992)) = Finite 1"
  unfolding fadd.simps
  by (rule round_double_binade [where e = 0]) (simp_all add: pow2_def round_half_even_def)

lemma sum_0_1_0_2:
  "fadd (Finite (3602879701896397 / 36028797018963968))
        (Finite (3602879701896397 / 18014398509481984)) =
     Finite (1351079888211149 / 4503599627370496)"
  unfolding fadd.simps
  by (rule round_double_binade [where e = "- 2"]) (simp_all add: pow2_def round_half_even_def)

lemma sum_0_1_0_2_0_7:
  "fadd (Finite (1351079888211149 / 4503599627370496))
        (Finite (3152519739159347 / 4503599627370496)) = Finite 1"
  unfolding fadd.simps
  by (rule round_double_binade [where e = 0]) (simp_all add: pow2_def round_half_even_def)

lemma sum_0_33:
  "fadd (Finite 0) (Finite (5944751508129055 / 18014398509481984)) =
     Finite (5944751508129055 / 18014398509481984)"
  unfolding fadd.simps
  by (rule round_double_binade [where e = "- 2"]) (simp_all add: pow2_def round_half_even_def)

lemma sum_0_33_0_33:
  "fadd (Finite (5944751508129055 / 18014398509481984))
        (Finite (5944751508129055 / 18014398509481984)) =
     Finite (5944751508129055 / 9007199254740992)"
  unfolding fadd.simps
  by (rule round_double_binade [where e = "- 1"]) (simp_all add: pow2_def round_half_even_def)

lemma sum_0_33_0_33_0_33:
  "fadd (Finite (5944751508129055 / 9007199254740992))
        (Finite (5944751508129055 / 18014398509481984)) =
     Finite (4458563631096791 / 4503599627370496)"
  unfolding fadd.simps
  by (rule round_double_binade [where e = "- 1"]) (simp_all add: pow2_def round_half_even_def)

lemma difference_0_99_1:
  "fsub (Finite (4458563631096791 / 4503599627370496)) (Finite 1) =
     Finite (- (45035996273705 / 4503599627370496))"
  unfolding fsub_def fneg.simps fadd.simps
  by (rule round_double_binade [where e = "- 7"]) (simp_all add: pow2_def round_half_even_def)

lemma difference_1_1: "fsub (Finite 1) (Finite 1) = Finite 0"
  by (simp add: fsub_def)

text \<open>A weight sum of \<open>1.0\<close> passes the check of the two functions.\<close>

lemma weight_sum_1_passes:
  "\<not> fgt (fabs (fsub (Finite 1) (Finite 1))) (round_double (1 / 100))"
  by (simp add: difference_1_1 literal_0_01 fgt_def)

text \<open>
  The two instances of \<open>sum\<close> on the weights used below. Both give \<open>1.0\<close> for the weights
  \<open>1.0\<close> and \<open>0.0\<close> of a default experiment and for the single weight \<open>1.0\<close>, and both give
  \<open>0.99\<close> for \<open>0.33\<close>, \<open>0.33\<close> and \<open>0.33\<close>: there the compensation term is \<open>2 ^ -54\<close>, half the
  spacing of the floats around \<open>0.99\<close>, and adding it rounds back to \<open>0.99\<close>. Both give NaN
  for the single weight NaN.
\<close>

lemma sum_left_defaults: "sum_left [Finite 1, Finite 0] = Finite 1"
  by (simp add: sum_left_def)

lemma sum_compensated_defaults: "sum_compensated [Finite 1, Finite 0] = Finite 1"
  by (simp add: fsub_def)

lemma sum_left_one: "sum_left [Finite 1] = Finite 1"
  by (simp add: sum_left_def)

lemma sum_compensated_one: "sum_compensated [Finite 1] = Finite 1"
  by simp

lemma sum_left_NaN: "sum_left [NaN] = NaN"
  by (simp add: sum_left_def)

lemma sum_compensated_NaN: "sum_compensated [NaN] = NaN"
  by simp

lemma sum_left_0_3_0_7:
  "sum_left [round_double (3 / 10), round_double (7 / 10)] = Finite 1"
  by (simp add: sum_left_def literal_0_3 literal_0_7 sum_0_3 sum_0_3_0_7 del: fadd.simps)

lemma sum_left_thirds:
  "sum_left [round_double (33 / 100), round_double (33 / 100), round_double (33 / 100)]
     = Finite (4458563631096791 / 4503599627370496)"
  by (simp add: sum_left_def literal_0_33 sum_0_33 sum_0_33_0_33 sum_0_33_0_33_0_33
      del: fadd.simps)

lemma sum_compensated_thirds:
  "sum_compensated [round_double (33 / 100), round_double (33 / 100), round_double (33 / 100)]
     = Finite (4458563631096791 / 4503599627370496)"
proof -
  have d1: "fsub (Finite (5944751508129055 / 18014398509481984))
                 (Finite (5944751508129055 / 9007199254740992))
              = Finite (- (5944751508129055 / 18014398509481984))"
    unfolding fsub_def fneg.simps fadd.simps
    by (rule round_double_binade [where e = "- 2"]) (simp_all add: pow2_def round_half_even_def)
  have c1: "fadd (Finite (- (5944751508129055 / 18014398509481984)))
                 (Finite (5944751508129055 / 18014398509481984)) = Finite 0"
    by simp
  have z: "fadd (Finite 0) (Finite 0) = Finite 0"
    by simp
  have d2: "fsub (Finite (5944751508129055 / 9007199254740992))
                 (Finite (4458563631096791 / 4503599627370496))
              = Finite (- (2972375754064527 / 9007199254740992))"
    unfolding fsub_def fneg.simps fadd.simps
    by (rule round_double_binade [where e = "- 2"]) (simp_all add: pow2_def round_half_even_def)
  have c2: "fadd (Finite (- (2972375754064527 / 9007199254740992)))
                 (Finite (5944751508129055 / 18014398509481984))
              = Finite (1 / 18014398509481984)"
    unfolding fadd.simps
    by (rule round_double_binade [where e = "- 54"]) (simp_all add: pow2_def round_half_even_def)
  have c3: "fadd (Finite 0) (Finite (1 / 18014398509481984)) = Finite (1 / 18014398509481984)"
    unfolding fadd.simps
    by (rule round_double_binade [where e = "- 54"]) (simp_all add: pow2_def round_half_even_def)
  have e: "fadd (Finite (4458563631096791 / 4503599627370496)) (Finite (1 / 18014398509481984))
             = Finite (4458563631096791 / 4503599627370496)"
    unfolding fadd.simps
    by (rule round_double_binade [where e = "- 1"]) (simp_all add: pow2_def round_half_even_def)
  show ?thesis
    by (simp add: literal_0_33 sum_0_33 sum_0_33_0_33 sum_0_33_0_33_0_33 d1 c1 z d2 c2 c3 e
        Let_def del: fadd.simps)
qed

section \<open>A/B testing: creation, update and allocation\<close>

subsection \<open>The loop of \<open>get_variant\<close> finds the first variant whose cumulative weight exceeds the bucket\<close>

lemma find_upt_Suc:
  "find P [0..<Suc n] = (if P 0 then Some 0 else map_option Suc (find (P \<circ> Suc) [0..<n]))"
proof -
  have m: "find P (map Suc xs) = map_option Suc (find (P \<circ> Suc) xs)" for xs
    by (induction xs) simp_all
  have "[0..<Suc n] = 0 # map Suc [0..<n]"
    by (simp add: upt_conv_Cons map_Suc_upt del: upt_Suc)
  then show ?thesis by (simp add: m del: upt_Suc)
qed

lemma walk_variants_finds:
  "walk_variants vs bucket cumulative =
     map_option (\<lambda>i. fst (vs ! i))
       (find (\<lambda>i. flt bucket (foldl fadd cumulative (map snd (take (Suc i) vs)))) [0..<length vs])"
proof (induction vs arbitrary: cumulative)
  case Nil
  then show ?case by simp
next
  case (Cons p rest)
  obtain v weight where p: "p = (v, weight)" by (cases p) auto
  have f: "(\<lambda>i. flt bucket (foldl fadd cumulative (map snd (take (Suc i) ((v, weight) # rest))))) \<circ> Suc
         = (\<lambda>i. flt bucket (foldl fadd (fadd cumulative weight) (map snd (take (Suc i) rest))))"
    by (rule ext) simp
  show ?case
    unfolding p length_Cons find_upt_Suc f
    by (simp add: Cons.IH option.map_comp comp_def)
qed

lemma walk_variants_first_exceeding:
  "walk_variants vs bucket (Finite 0) = first_exceeding vs bucket"
  by (simp add: walk_variants_finds first_exceeding_def)

subsection \<open>Concrete managers\<close>

text \<open>
  The constructor, for both instances of \<open>sum\<close>: the three default experiments are created
  (which takes three readings of the clock), none of the creations raises.
\<close>

lemma new_manager_demo:
  "new_manager sum_left tick_clock ([], [], []) 0 = (Inr demo_manager, 3)"
  "new_manager sum_compensated tick_clock ([], [], []) 0 = (Inr demo_manager, 3)"
  using weight_sum_1_passes
  by (simp_all add: demo_manager_def new_manager_def init_default_experiments_def
      create_experiment_def tick_clock_def Let_def sum_left_defaults sum_compensated_defaults
      del: sum_compensated.simps)

lemma demo_manager_lookup:
  "experiments demo_manager ''rollout'' = None"
  "experiments demo_manager ''llm_provider'' =
     Some \<lparr>exp_name = ''llm_provider'',
           variants = [(''dashscope'', Finite 1), (''openai'', Finite 0)],
           enabled = True, exp_created_at = 0, description = []\<rparr>"
  by (simp_all add: demo_manager_def)

lemma rollout_manager_lookup:
  "experiments rollout_manager ''rollout'' =
     Some \<lparr>exp_name = ''rollout'',
           variants = [(''A'', round_double (3 / 10)), (''B'', round_double (7 / 10))],
           enabled = True, exp_created_at = 30, description = []\<rparr>"
  using weight_sum_1_passes
  by (simp add: rollout_manager_def create_experiment_def sum_left_0_3_0_7 tick_clock_def Let_def)

subsection \<open>Allocation\<close>

text \<open>
  C6, as the claim states it, fails for an unknown experiment: there is no declared
  variant to return, and \<open>get_variant\<close> answers with the literal \<open>default\<close>. A fresh
  manager has no experiment \<open>rollout\<close>.
\<close>

theorem get_variant_unknown_counterexample:
  "experiments demo_manager ''rollout'' = None
   \<and> get_variant demo_md5 demo_manager ''rollout'' ''s1'' = Inr ''default''"
  by (simp add: demo_manager_lookup get_variant_def)

text \<open>
  C6, amended. For every experiment name and session id: an unknown experiment gives the
  literal \<open>default\<close>; a known, disabled experiment gives its first declared variant; a
  known, enabled one gives the first variant, in declared order, whose cumulative weight
  exceeds the bucket, and the last declared variant when no cumulative weight does. The
  bucket is the float \<open>(md5(name + ":" + session_id) mod 10000) / 10000\<close>, a cumulative
  weight is the float that the weights so far add up to, in declared order from \<open>0.0\<close>, and
  the comparison is the one of floats. (An experiment without any variant, which neither
  creation nor update can store, makes the call raise \<open>IndexError\<close>.)
\<close>

theorem get_variant_allocation:
  "(experiments m nm = None \<longrightarrow> get_variant md5_int m nm sid = Inr ''default'')
   \<and> (experiments m nm = Some e \<and> \<not> enabled e \<and> variants e \<noteq> []
        \<longrightarrow> get_variant md5_int m nm sid = Inr (fst (hd (variants e))))
   \<and> (experiments m nm = Some e \<and> enabled e \<and> variants e \<noteq> []
        \<longrightarrow> get_variant md5_int m nm sid =
              Inr (case first_exceeding (variants e)
                          (round_double (real (md5_int (nm @ '':'' @ sid) mod 10000) / 10000)) of
                     Some v \<Rightarrow> v
                   | None \<Rightarrow> fst (last (variants e))))
   \<and> (experiments m nm = Some e \<and> variants e = []
        \<longrightarrow> get_variant md5_int m nm sid = Inl IndexError)"
proof (intro conjI impI)
  assume "experiments m nm = None"
  then show "get_variant md5_int m nm sid = Inr ''default''"
    by (simp add: get_variant_def)
next
  assume "experiments m nm = Some e \<and> \<not> enabled e \<and> variants e \<noteq> []"
  then show "get_variant md5_int m nm sid = Inr (fst (hd (variants e)))"
    by (cases "variants e") (auto simp: get_variant_def)
next
  assume a: "experiments m nm = Some e \<and> enabled e \<and> variants e \<noteq> []"
  then obtain p rest where v: "variants e = p # rest" by (cases "variants e") auto
  from a show "get_variant md5_int m nm sid =
      Inr (case first_exceeding (variants e)
                  (round_double (real (md5_int (nm @ '':'' @ sid) mod 10000) / 10000)) of
             Some v \<Rightarrow> v
           | None \<Rightarrow> fst (last (variants e)))"
    by (simp add: get_variant_def Let_def walk_variants_first_exceeding v
        split: option.splits)
next
  assume "experiments m nm = Some e \<and> variants e = []"
  then show "get_variant md5_int m nm sid = Inl IndexError"
    by (simp add: get_variant_def Let_def)
qed

lemma rollout_first_exceeding:
  "first_exceeding [(''A'', round_double (3 / 10)), (''B'', round_double (7 / 10))]
     (round_double (292 / 625)) = Some ''B''"
  "first_exceeding [(''A'', round_double (3 / 10)), (''B'', round_double (7 / 10))]
     (round_double (1103 / 5000)) = Some ''A''"
  by (simp_all add: first_exceeding_def upt_conv_Cons literal_0_3 literal_0_7 quotient_4672
      quotient_2206 sum_0_3 sum_0_3_0_7 del: fadd.simps)

lemma demo_md5_buckets:
  "demo_md5 ''rollout:s1'' mod 10000 = 4672"
  "demo_md5 ''rollout:s5'' mod 10000 = 2206"
  by (simp_all add: demo_md5_def)

theorem get_variant_allocation_witness:
  "experiments demo_manager ''rollout'' = None
   \<and> get_variant demo_md5 demo_manager ''rollout'' ''s1'' = Inr ''default''
   \<and> experiments rollout_manager ''rollout'' =
        Some \<lparr>exp_name = ''rollout'',
              variants = [(''A'', round_double (3 / 10)), (''B'', round_double (7 / 10))],
              enabled = True, exp_created_at = 30, description = []\<rparr>
   \<and> get_variant demo_md5 rollout_manager ''rollout'' ''s1'' = Inr ''B''
   \<and> get_variant demo_md5 rollout_manager ''rollout'' ''s5'' = Inr ''A''
   \<and> experiments (enable_experiment rollout_manager ''rollout'' False) ''rollout'' =
        Some \<lparr>exp_name = ''rollout'',
              variants = [(''A'', round_double (3 / 10)), (''B'', round_double (7 / 10))],
              enabled = False, exp_created_at = 30, description = []\<rparr>
   \<and> get_variant demo_md5 (enable_experiment rollout_manager ''rollout'' False) ''rollout'' ''s1''
        = Inr ''A''
   \<and> experiments (rollout_manager\<lparr>experiments := (experiments rollout_manager)(''void'' \<mapsto>
          \<lparr>exp_name = ''void'', variants = [], enabled = True, exp_created_at = 0,
           description = []\<rparr>)\<rparr>) ''void''
        = Some \<lparr>exp_name = ''void'', variants = [], enabled = True, exp_created_at = 0,
                description = []\<rparr>
   \<and> get_variant demo_md5 (rollout_manager\<lparr>experiments := (experiments rollout_manager)(''void'' \<mapsto>
          \<lparr>exp_name = ''void'', variants = [], enabled = True, exp_created_at = 0,
           description = []\<rparr>)\<rparr>) ''void'' ''s1''
        = Inl IndexError"
proof -
  let ?on = "\<lparr>exp_name = ''rollout'',
              variants = [(''A'', round_double (3 / 10)), (''B'', round_double (7 / 10))],
              enabled = True, exp_created_at = 30, description = []\<rparr>"
  let ?off = "\<lparr>exp_name = ''rollout'',
              variants = [(''A'', round_double (3 / 10)), (''B'', round_double (7 / 10))],
              enabled = False, exp_created_at = 30, description = []\<rparr>"
  let ?void = "\<lparr>exp_name = ''void'', variants = [], enabled = True, exp_created_at = 0,
           description = []\<rparr>"
  let ?vm = "rollout_manager\<lparr>experiments := (experiments rollout_manager)(''void'' \<mapsto> ?void)\<rparr>"
  have off: "experiments (enable_experiment rollout_manager ''rollout'' False) ''rollout'' = Some ?off"
    by (simp add: enable_experiment_def rollout_manager_lookup)
  have void: "experiments ?vm ''void'' = Some ?void"
    by simp
  from get_variant_allocation [of demo_manager "''rollout''" demo_md5 "''s1''" ?on]
    get_variant_allocation [of rollout_manager "''rollout''" demo_md5 "''s1''" ?on]
    get_variant_allocation [of rollout_manager "''rollout''" demo_md5 "''s5''" ?on]
    get_variant_allocation [of "enable_experiment rollout_manager ''rollout'' False"
      "''rollout''" demo_md5 "''s1''" ?off]
    get_variant_allocation [of ?vm "''void''" demo_md5 "''s1''" ?void]
  show ?thesis
    using off void
    by (simp add: demo_manager_lookup rollout_manager_lookup demo_md5_buckets
        rollout_first_exceeding)
qed

text \<open>
  The allocation follows the rounding of the floats. With the weights \<open>0.1\<close>, \<open>0.2\<close> and
  \<open>0.7\<close> the cumulative weight after the second variant is \<open>0.1 + 0.2\<close>, the float
  \<open>0.30000000000000004\<close>, so the bucket \<open>3000 / 10000\<close>, the float \<open>0.3\<close>, is allocated to
  the second variant. With the weights \<open>0.1\<close> and \<open>0.9\<close> the bucket \<open>1000 / 10000\<close> is the
  same float as the first cumulative weight, which therefore does not exceed it, and is
  allocated to the second variant.
\<close>

lemma allocation_follows_rounding:
  "walk_variants [(''A'', round_double (1 / 10)), (''B'', round_double (2 / 10)),
                  (''C'', round_double (7 / 10))] (round_double (3000 / 10000)) (Finite 0)
     = Some ''B''"
  "walk_variants [(''A'', round_double (1 / 10)), (''B'', round_double (9 / 10))]
                 (round_double (1000 / 10000)) (Finite 0)
     = Some ''B''"
  by (simp_all add: literal_0_1 literal_0_2 literal_0_3 literal_0_7 literal_0_9
      sum_0_1 sum_0_1_0_2 sum_0_1_0_9 del: fadd.simps)

subsection \<open>Creation and update\<close>

text \<open>
  C7, as the claim states it, fails: \<open>create_experiment\<close> never looks whether the name is
  taken. On a fresh manager, which holds the default experiment \<open>llm_provider\<close>, creating
  \<open>llm_provider\<close> again with other weights succeeds and replaces the stored experiment.
\<close>

theorem create_existing_name_counterexample:
  "experiments demo_manager ''llm_provider'' =
     Some \<lparr>exp_name = ''llm_provider'',
           variants = [(''dashscope'', Finite 1), (''openai'', Finite 0)],
           enabled = True, exp_created_at = 0, description = []\<rparr>
   \<and> fst (create_experiment sum_left tick_clock demo_manager ''llm_provider''
             [(''openai'', Finite 1)] [] 3) =
       Inr \<lparr>exp_name = ''llm_provider'', variants = [(''openai'', Finite 1)],
            enabled = True, exp_created_at = 30, description = []\<rparr>
   \<and> experiments (fst (snd (create_experiment sum_left tick_clock demo_manager ''llm_provider''
                               [(''openai'', Finite 1)] [] 3))) ''llm_provider'' =
       Some \<lparr>exp_name = ''llm_provider'', variants = [(''openai'', Finite 1)],
             enabled = True, exp_created_at = 30, description = []\<rparr>
   \<and> fst (create_experiment sum_compensated tick_clock demo_manager ''llm_provider''
             [(''openai'', Finite 1)] [] 3) =
       Inr \<lparr>exp_name = ''llm_provider'', variants = [(''openai'', Finite 1)],
            enabled = True, exp_created_at = 30, description = []\<rparr>
   \<and> experiments (fst (snd (create_experiment sum_compensated tick_clock demo_manager
                               ''llm_provider'' [(''openai'', Finite 1)] [] 3))) ''llm_provider'' =
       Some \<lparr>exp_name = ''llm_provider'', variants = [(''openai'', Finite 1)],
             enabled = True, exp_created_at = 30, description = []\<rparr>"
  using weight_sum_1_passes
  by (simp add: demo_manager_lookup create_experiment_def tick_clock_def Let_def
      sum_left_one sum_compensated_one del: sum_compensated.simps)

text \<open>
  C7, amended. Let \<open>s\<close> be the float that \<open>sum\<close> gives for the weights. For every
  experiment name already present in the manager, \<open>create_experiment\<close> with that name is
  accepted whenever \<open>abs(s - 1.0) <= 0.01\<close> holds in float arithmetic: it returns a fresh
  experiment (the given variants and description, enabled, created at the current clock
  reading) and stores it under the name in place of the old one, leaving every other
  experiment and the results as they were. It is rejected with a \<open>ValueError\<close> whenever
  \<open>abs(s - 1.0) > 0.01\<close> holds in float arithmetic, and then the manager is unchanged and
  the clock is not read.
\<close>

theorem create_existing_name_replaces:
  assumes "experiments m nm = Some old"
  shows "(fle (fabs (fsub (py_sum (map snd vs)) (Finite 1))) (round_double (1 / 100)) \<longrightarrow>
            create_experiment py_sum tm m nm vs descr w =
              (Inr \<lparr>exp_name = nm, variants = vs, enabled = True,
                     exp_created_at = fst (tm w), description = descr\<rparr>,
               m\<lparr>experiments := (experiments m)(nm \<mapsto>
                     \<lparr>exp_name = nm, variants = vs, enabled = True,
                      exp_created_at = fst (tm w), description = descr\<rparr>)\<rparr>,
               snd (tm w)))
       \<and> (fgt (fabs (fsub (py_sum (map snd vs)) (Finite 1))) (round_double (1 / 100)) \<longrightarrow>
            create_experiment py_sum tm m nm vs descr w =
              (Inl (ValueError (WeightSum (py_sum (map snd vs)))), m, w))"
proof -
  have x: "fle a b \<Longrightarrow> \<not> fgt a b" for a b
    by (cases a; cases b) (simp_all add: fgt_def)
  show ?thesis
    by (auto simp add: create_experiment_def Let_def case_prod_beta dest: x)
qed

text \<open>
  The weights \<open>0.33\<close>, \<open>0.33\<close> and \<open>0.33\<close>: their float sum is \<open>0.99\<close>, and \<open>abs(0.99 - 1.0)\<close>
  is the float \<open>0.010000000000000009\<close>, which is greater than the float \<open>0.01\<close>.
\<close>

lemma thirds_outside_tolerance:
  "fgt (fabs (fsub (Finite (4458563631096791 / 4503599627370496)) (Finite 1)))
       (round_double (1 / 100))"
  by (simp add: difference_0_99_1 literal_0_01 fgt_def)

lemma one_inside_tolerance:
  "fle (fabs (fsub (Finite 1) (Finite 1))) (round_double (1 / 100))"
  by (simp add: difference_1_1 literal_0_01)

theorem create_existing_name_replaces_witness:
  "experiments demo_manager ''llm_provider'' =
     Some \<lparr>exp_name = ''llm_provider'',
           variants = [(''dashscope'', Finite 1), (''openai'', Finite 0)],
           enabled = True, exp_created_at = 0, description = []\<rparr>
   \<and> fle (fabs (fsub (sum_left (map snd [(''openai'', Finite 1)])) (Finite 1)))
         (round_double (1 / 100))
   \<and> create_experiment sum_left tick_clock demo_manager ''llm_provider''
        [(''openai'', Finite 1)] [] 3 =
       (Inr \<lparr>exp_name = ''llm_provider'', variants = [(''openai'', Finite 1)], enabled = True,
              exp_created_at = 30, description = []\<rparr>,
        demo_manager\<lparr>experiments := (experiments demo_manager)(''llm_provider'' \<mapsto>
              \<lparr>exp_name = ''llm_provider'', variants = [(''openai'', Finite 1)], enabled = True,
               exp_created_at = 30, description = []\<rparr>)\<rparr>,
        4)
   \<and> fgt (fabs (fsub (sum_left (map snd [(''A'', round_double (33 / 100)),
                                          (''B'', round_double (33 / 100)),
                                          (''C'', round_double (33 / 100))])) (Finite 1)))
         (round_double (1 / 100))
   \<and> create_experiment sum_left tick_clock demo_manager ''llm_provider''
        [(''A'', round_double (33 / 100)), (''B'', round_double (33 / 100)),
         (''C'', round_double (33 / 100))] [] 3 =
       (Inl (ValueError (WeightSum (Finite (4458563631096791 / 4503599627370496)))),
        demo_manager, 3)
   \<and> fgt (fabs (fsub (sum_compensated (map snd [(''A'', round_double (33 / 100)),
                                                 (''B'', round_double (33 / 100)),
                                                 (''C'', round_double (33 / 100))])) (Finite 1)))
         (round_double (1 / 100))
   \<and> create_experiment sum_compensated tick_clock demo_manager ''llm_provider''
        [(''A'', round_double (33 / 100)), (''B'', round_double (33 / 100)),
         (''C'', round_double (33 / 100))] [] 3 =
       (Inl (ValueError (WeightSum (Finite (4458563631096791 / 4503599627370496)))),
        demo_manager, 3)"
proof -
  let ?thirds = "[(''A'', round_double (33 / 100)), (''B'', round_double (33 / 100)),
                  (''C'', round_double (33 / 100))]"
  have h: "experiments demo_manager ''llm_provider'' =
     Some \<lparr>exp_name = ''llm_provider'',
           variants = [(''dashscope'', Finite 1), (''openai'', Finite 0)],
           enabled = True, exp_created_at = 0, description = []\<rparr>"
    by (rule demo_manager_lookup)
  have one: "sum_left (map snd [(''openai'', Finite 1)]) = Finite 1"
    by (simp add: sum_left_one)
  have tl: "sum_left (map snd ?thirds) = Finite (4458563631096791 / 4503599627370496)"
    by (simp add: sum_left_thirds)
  have tc: "sum_compensated (map snd ?thirds) = Finite (4458563631096791 / 4503599627370496)"
    by (simp add: sum_compensated_thirds del: sum_compensated.simps)
  from create_existing_name_replaces [OF h, of sum_left "[(''openai'', Finite 1)]" tick_clock "[]" 3]
    create_existing_name_replaces [OF h, of sum_left ?thirds tick_clock "[]" 3]
    create_existing_name_replaces [OF h, of sum_compensated ?thirds tick_clock "[]" 3]
  show ?thesis
    unfolding one tl tc
    using h one_inside_tolerance thirds_outside_tolerance
    by (simp add: tick_clock_def)
qed

text \<open>
  When the check \<open>abs(total_weight - 1.0) > 0.01\<close> is true, both \<open>create_experiment\<close> and
  \<open>update_traffic\<close> raise \<open>ValueError\<close> and leave the manager (its experiments and its
  results) exactly as it was; \<open>create_experiment\<close> does not even read the clock. (For
  \<open>update_traffic\<close> on an unknown name the \<open>ValueError\<close> is the one for the missing
  experiment.)
\<close>

lemma weight_check_rejects:
  assumes "fgt (fabs (fsub (py_sum (map snd vs)) (Finite 1))) (round_double (1 / 100))"
  shows "create_experiment py_sum tm m nm vs descr w =
           (Inl (ValueError (WeightSum (py_sum (map snd vs)))), m, w)
       \<and> update_traffic py_sum m nm vs =
           (Inl (ValueError (if experiments m nm = None then NoSuchExperiment nm
                             else WeightSum (py_sum (map snd vs)))), m)"
  using assms
  by (simp add: create_experiment_def update_traffic_def Let_def split: option.splits)

text \<open>
  The check is true for every weight sum that is a number (finite or infinite) other
  than one with \<open>abs(s - 1.0) <= 0.01\<close>, and false for a sum that is not a number.
\<close>

lemma weight_check_cases:
  "fgt (fabs (fsub s (Finite 1))) (round_double (1 / 100))
     \<longleftrightarrow> s \<noteq> NaN \<and> \<not> fle (fabs (fsub s (Finite 1))) (round_double (1 / 100))"
proof (cases s)
  case (Finite x)
  have n: "round_double z \<noteq> NaN" for z
    by (simp add: round_double_def Let_def)
  obtain y where y: "fsub (Finite x) (Finite 1) = y" by simp
  then have "y \<noteq> NaN" using n [of "x - 1"] by (simp add: fsub_def)
  then show ?thesis unfolding Finite y
    by (cases y) (auto simp add: literal_0_01 fgt_def)
qed (simp_all add: fsub_def literal_0_01 fgt_def)

text \<open>
  So weights whose sum is not a number pass the check, although such a sum is not within
  0.01 of 1: neither function raises, and the weights are stored.
\<close>

lemma nan_sum_passes_check:
  assumes "py_sum (map snd vs) = NaN"
  shows "create_experiment py_sum tm m nm vs descr w =
           (Inr \<lparr>exp_name = nm, variants = vs, enabled = True,
                  exp_created_at = fst (tm w), description = descr\<rparr>,
            m\<lparr>experiments := (experiments m)(nm \<mapsto>
                  \<lparr>exp_name = nm, variants = vs, enabled = True,
                   exp_created_at = fst (tm w), description = descr\<rparr>)\<rparr>,
            snd (tm w))"
    and "experiments m nm = Some e \<Longrightarrow>
         update_traffic py_sum m nm vs =
           (Inr (), m\<lparr>experiments := (experiments m)(nm \<mapsto> e\<lparr>variants := vs\<rparr>)\<rparr>)"
  using assms
  by (simp_all add: create_experiment_def update_traffic_def Let_def case_prod_beta
      fsub_def fgt_def)

text \<open>
  C8 fails for weights whose float sum is not a number. With the single weight
  \<open>float('nan')\<close> the sum is NaN with either instance of \<open>sum\<close>, which is not within 0.01 of
  1; \<open>abs(nan - 1.0) > 0.01\<close> is false, and neither function raises: \<open>create_experiment\<close>
  stores a new experiment with the weight NaN, and \<open>update_traffic\<close> overwrites the weights
  \<open>0.3\<close> and \<open>0.7\<close> of the existing experiment \<open>rollout\<close> with it.
\<close>

theorem nan_weight_sum_accepted:
  "sum_left (map snd [(''A'', NaN)]) = NaN
   \<and> sum_compensated (map snd [(''A'', NaN)]) = NaN
   \<and> \<not> fle (fabs (fsub NaN (Finite 1))) (round_double (1 / 100))
   \<and> create_experiment sum_left tick_clock rollout_manager ''trial'' [(''A'', NaN)] [] 4 =
       (Inr \<lparr>exp_name = ''trial'', variants = [(''A'', NaN)], enabled = True,
              exp_created_at = 40, description = []\<rparr>,
        rollout_manager\<lparr>experiments := (experiments rollout_manager)(''trial'' \<mapsto>
              \<lparr>exp_name = ''trial'', variants = [(''A'', NaN)], enabled = True,
               exp_created_at = 40, description = []\<rparr>)\<rparr>,
        5)
   \<and> create_experiment sum_compensated tick_clock rollout_manager ''trial'' [(''A'', NaN)] [] 4 =
       (Inr \<lparr>exp_name = ''trial'', variants = [(''A'', NaN)], enabled = True,
              exp_created_at = 40, description = []\<rparr>,
        rollout_manager\<lparr>experiments := (experiments rollout_manager)(''trial'' \<mapsto>
              \<lparr>exp_name = ''trial'', variants = [(''A'', NaN)], enabled = True,
               exp_created_at = 40, description = []\<rparr>)\<rparr>,
        5)
   \<and> experiments rollout_manager ''rollout'' =
        Some \<lparr>exp_name = ''rollout'',
              variants = [(''A'', round_double (3 / 10)), (''B'', round_double (7 / 10))],
              enabled = True, exp_created_at = 30, description = []\<rparr>
   \<and> update_traffic sum_left rollout_manager ''rollout'' [(''A'', NaN)] =
       (Inr (),
        rollout_manager\<lparr>experiments := (experiments rollout_manager)(''rollout'' \<mapsto>
              \<lparr>exp_name = ''rollout'', variants = [(''A'', NaN)], enabled = True,
               exp_created_at = 30, description = []\<rparr>)\<rparr>)
   \<and> update_traffic sum_compensated rollout_manager ''rollout'' [(''A'', NaN)] =
       (Inr (),
        rollout_manager\<lparr>experiments := (experiments rollout_manager)(''rollout'' \<mapsto>
              \<lparr>exp_name = ''rollout'', variants = [(''A'', NaN)], enabled = True,
               exp_created_at = 30, description = []\<rparr>)\<rparr>)"
proof -
  have l: "sum_left (map snd [(''A'', NaN)]) = NaN"
    by (simp add: sum_left_NaN)
  have c: "sum_compensated (map snd [(''A'', NaN)]) = NaN"
    by simp
  have r: "experiments rollout_manager ''rollout'' =
        Some \<lparr>exp_name = ''rollout'',
              variants = [(''A'', round_double (3 / 10)), (''B'', round_double (7 / 10))],
              enabled = True, exp_created_at = 30, description = []\<rparr>"
    by (rule rollout_manager_lookup)
  have n: "\<not> fle (fabs (fsub NaN (Finite 1))) (round_double (1 / 100))"
    by (simp add: fsub_def)
  show ?thesis
    using l c r n
      nan_sum_passes_check(1) [where py_sum = sum_left and vs = "[(''A'', NaN)]"
        and tm = tick_clock and m = rollout_manager and nm = "''trial''" and descr = "[]"
        and w = 4]
      nan_sum_passes_check(1) [where py_sum = sum_compensated and vs = "[(''A'', NaN)]"
        and tm = tick_clock and m = rollout_manager and nm = "''trial''" and descr = "[]"
        and w = 4]
      nan_sum_passes_check(2) [where py_sum = sum_left and vs = "[(''A'', NaN)]"
        and m = rollout_manager and nm = "''rollout''"]
      nan_sum_passes_check(2) [where py_sum = sum_compensated and vs = "[(''A'', NaN)]"
        and m = rollout_manager and nm = "''rollout''"]
    by (simp add: tick_clock_def del: sum_compensated.simps)
qed

section \<open>Response cache: what is stored and what is found\<close>

subsection \<open>The parts of the cache that each operation leaves alone\<close>

lemma evict_lru_frame:
  "objects (evict_lru c) = objects c"
  "semantic_cache (evict_lru c) = semantic_cache c"
  "max_size (evict_lru c) = max_size c"
  "default_ttl (evict_lru c) = default_ttl c"
  "similarity_threshold (evict_lru c) = similarity_threshold c"
  "enable_semantic (evict_lru c) = enable_semantic c"
  "embeddings_loaded (evict_lru c) = embeddings_loaded c"
  by (simp_all add: evict_lru_def Let_def)

lemma get_embedding_frame:
  "objects (fst (snd (get_embedding emb c q w))) = objects c"
  "exact_cache (fst (snd (get_embedding emb c q w))) = exact_cache c"
  "semantic_cache (fst (snd (get_embedding emb c q w))) = semantic_cache c"
  "max_size (fst (snd (get_embedding emb c q w))) = max_size c"
  "similarity_threshold (fst (snd (get_embedding emb c q w))) = similarity_threshold c"
  by (simp_all add: get_embedding_def Let_def case_prod_beta)

lemma set_entry_frame:
  "max_size (fst (set_entry tm emb sha c q r t w)) = max_size c"
  "exact_cache (fst (set_entry tm emb sha c q r t w)) =
     AList.update (get_hash sha q) (length (objects c)) (exact_cache (evict_lru c))"
  by (simp_all add: set_entry_def Let_def case_prod_beta evict_lru_frame get_embedding_frame)

subsection \<open>The size of the exact-match store\<close>

lemma length_fold_delete: "length (fold AList.delete ks al) \<le> length al"
proof (induction ks arbitrary: al)
  case Nil
  then show ?case by simp
next
  case (Cons k ks)
  have "length (fold AList.delete ks (AList.delete k al)) \<le> length (AList.delete k al)"
    by (rule Cons.IH)
  also have "\<dots> \<le> length al" by (rule length_delete_le)
  finally show ?case by simp
qed

lemma length_delete_present:
  "k \<in> fst ` set al \<Longrightarrow> length (AList.delete k al) < length al"
proof (induction al)
  case Nil
  then show ?case by simp
next
  case (Cons p al)
  show ?case
  proof (cases "fst p = k")
    case True
    have "length (AList.delete k al) \<le> length al" by (rule length_delete_le)
    with True show ?thesis by (cases p) simp
  next
    case False
    with Cons.prems have "k \<in> fst ` set al" by auto
    with Cons.IH have "length (AList.delete k al) < length al" by simp
    with False show ?thesis by (cases p) auto
  qed
qed

lemma length_update_le: "length (AList.update k v al) \<le> Suc (length al)"
  by (induction al) auto

lemma evict_lru_makes_room:
  assumes "1 \<le> max_size c" and "int (length (exact_cache c)) \<le> max_size c"
  shows "int (length (exact_cache (evict_lru c))) < max_size c"
proof (cases "int (length (exact_cache c)) \<ge> max_size c")
  case False
  then show ?thesis by (simp add: evict_lru_def)
next
  case True
  define sorted_items where
    "sorted_items = sort_key (\<lambda>(k, a). (hits (objects c ! a), created_at (objects c ! a))) (exact_cache c)"
  define to_remove where "to_remove = max 1 (length sorted_items div 10)"
  from True assms(1) have ne: "exact_cache c \<noteq> []" by auto
  have len: "length sorted_items = length (exact_cache c)"
    and st: "set sorted_items = set (exact_cache c)"
    by (simp_all add: sorted_items_def)
  from ne len obtain p rest where s: "sorted_items = p # rest"
    by (cases sorted_items) auto
  have "to_remove \<ge> 1" by (simp add: to_remove_def)
  then obtain n where n: "to_remove = Suc n" by (cases to_remove) auto
  from s st have "fst p \<in> fst ` set (exact_cache c)" by auto
  then have "length (AList.delete (fst p) (exact_cache c)) < length (exact_cache c)"
    by (rule length_delete_present)
  moreover have "length (fold AList.delete (map fst (take n rest)) (AList.delete (fst p) (exact_cache c)))
      \<le> length (AList.delete (fst p) (exact_cache c))"
    by (rule length_fold_delete)
  ultimately have "length (fold AList.delete (map fst (take to_remove sorted_items)) (exact_cache c))
      < length (exact_cache c)"
    by (simp add: n s)
  moreover have "exact_cache (evict_lru c)
      = fold AList.delete (map fst (take to_remove sorted_items)) (exact_cache c)"
    using True by (simp add: evict_lru_def Let_def sorted_items_def to_remove_def)
  ultimately show ?thesis using assms(2) by simp
qed

lemma set_entry_within_max_size:
  assumes "1 \<le> max_size c" and "int (length (exact_cache c)) \<le> max_size c"
  shows "int (length (exact_cache (fst (set_entry tm emb sha c q r t w)))) \<le> max_size c"
proof -
  have "length (AList.update (get_hash sha q) (length (objects c)) (exact_cache (evict_lru c)))
      \<le> Suc (length (exact_cache (evict_lru c)))"
    by (rule length_update_le)
  with evict_lru_makes_room [OF assms] show ?thesis
    by (simp add: set_entry_frame)
qed

lemma set_all_within_max_size:
  "1 \<le> max_size c \<Longrightarrow> int (length (exact_cache c)) \<le> max_size c \<Longrightarrow>
   int (length (exact_cache (fst (set_all tm emb sha c qs w)))) \<le> max_size c
   \<and> max_size (fst (set_all tm emb sha c qs w)) = max_size c"
proof (induction qs arbitrary: c w)
  case Nil
  then show ?case by simp
next
  case (Cons x qs)
  obtain q r t where x: "x = (q, r, t)" by (cases x) auto
  obtain c' w' where s: "set_entry tm emb sha c q r t w = (c', w')"
    by (cases "set_entry tm emb sha c q r t w") auto
  from set_entry_within_max_size [OF Cons.prems, of tm emb sha q r t w] s
  have b: "int (length (exact_cache c')) \<le> max_size c" by simp
  from set_entry_frame(1) [of tm emb sha c q r t w] s
  have m: "max_size c' = max_size c" by simp
  from Cons.IH [of c' w'] b m Cons.prems(1) show ?case
    by (simp add: x s)
qed

lemmas hash_eval =
  get_hash_def demo_sha256_def str_strip_def str_lower_def is_space_def lower_char_def Let_def
  char_of_def bit_Suc_0_iff

lemma demo_hashes:
  "get_hash demo_sha256 ''a'' = ''ca978112ca1bbdca''"
  "get_hash demo_sha256 ''b'' = ''3e23e8160039594a''"
  "get_hash demo_sha256 ''c'' = ''2e7d2c03a9507ae2''"
  "get_hash demo_sha256 ''  Hello '' = ''2cf24dba5fb0a30e''"
  "get_hash demo_sha256 ''HELLO'' = ''2cf24dba5fb0a30e''"
  "get_hash demo_sha256 ''bye'' = ''b49f425a7e1f9cff''"
  by (simp_all add: hash_eval)

lemma zero_size_cache_set:
  "exact_cache (fst (set_entry tick_clock demo_embedder demo_sha256 zero_size_cache
                       ''a'' (Some ''ra'') None 0)) = [(''ca978112ca1bbdca'', 0)]"
  by (simp add: set_entry_frame demo_hashes zero_size_cache_def new_cache_def evict_lru_def)

text \<open>
  C5, as the claim states it, fails for a cache configured with \<open>max_size = 0\<close>: nothing
  can be evicted from the empty store, the entry is inserted all the same, and the store
  holds one entry.
\<close>

theorem zero_max_size_counterexample:
  "max_size zero_size_cache = 0
   \<and> exact_cache zero_size_cache = []
   \<and> int (length (exact_cache (fst (set_entry tick_clock demo_embedder demo_sha256
                                      zero_size_cache ''a'' (Some ''ra'') None 0)))) = 1
   \<and> \<not> int (length (exact_cache (fst (set_entry tick_clock demo_embedder demo_sha256
                                      zero_size_cache ''a'' (Some ''ra'') None 0))))
        \<le> max_size zero_size_cache"
  by (simp add: zero_size_cache_set) (simp add: zero_size_cache_def new_cache_def)

text \<open>
  C5, amended. For a cache whose \<open>max_size\<close> is at least 1 and whose exact-match store
  holds at most \<open>max_size\<close> entries (as the empty store of a new cache does), after every
  run of \<open>set\<close> calls, whatever the queries, the store holds at most \<open>max_size\<close> entries.
  Every prefix of a run is a run, so the bound holds after each single \<open>set\<close>.
\<close>

theorem set_keeps_store_within_max_size:
  assumes "1 \<le> max_size c" and "int (length (exact_cache c)) \<le> max_size c"
  shows "int (length (exact_cache (fst (set_all tm emb sha c qs w)))) \<le> max_size c"
  using set_all_within_max_size [OF assms, of tm emb sha qs w] by (rule conjunct1)

lemma small_cache_run:
  "exact_cache (fst (set_all tick_clock demo_embedder demo_sha256 small_cache
       [(''a'', Some ''ra'', None), (''b'', Some ''rb'', None), (''c'', Some ''rc'', None)] 0))
   = [(''3e23e8160039594a'', 1), (''2e7d2c03a9507ae2'', 2)]"
  by (simp add: set_entry_def demo_hashes small_cache_def new_cache_def evict_lru_def
      tick_clock_def Let_def less_eq_prod_def)

theorem set_keeps_store_within_max_size_witness:
  "1 \<le> max_size small_cache
   \<and> int (length (exact_cache small_cache)) \<le> max_size small_cache
   \<and> exact_cache (fst (set_all tick_clock demo_embedder demo_sha256 small_cache
        [(''a'', Some ''ra'', None), (''b'', Some ''rb'', None), (''c'', Some ''rc'', None)] 0))
       = [(''3e23e8160039594a'', 1), (''2e7d2c03a9507ae2'', 2)]
   \<and> int (length (exact_cache (fst (set_all tick_clock demo_embedder demo_sha256 small_cache
        [(''a'', Some ''ra'', None), (''b'', Some ''rb'', None), (''c'', Some ''rc'', None)] 0))))
       \<le> max_size small_cache"
proof -
  have h: "1 \<le> max_size small_cache" "int (length (exact_cache small_cache)) \<le> max_size small_cache"
    by (simp_all add: small_cache_def new_cache_def)
  from set_keeps_store_within_max_size [OF h, of tick_clock demo_embedder demo_sha256
      "[(''a'', Some ''ra'', None), (''b'', Some ''rb'', None), (''c'', Some ''rc'', None)]" 0]
  show ?thesis using h by (simp only: small_cache_run)
qed

subsection \<open>What \<open>set\<close> stores and what \<open>get\<close> finds\<close>

lemma set_entry_object:
  "length (objects c) < length (objects (fst (set_entry tm emb sha c q r t w)))"
  "response (objects (fst (set_entry tm emb sha c q r t w)) ! length (objects c)) = r"
  "created_at (objects (fst (set_entry tm emb sha c q r t w)) ! length (objects c)) = fst (tm w)"
  "ttl (objects (fst (set_entry tm emb sha c q r t w)) ! length (objects c)) =
     (case t of None \<Rightarrow> default_ttl c | Some x \<Rightarrow> if x = 0 then default_ttl c else x)"
  by (simp_all add: set_entry_def Let_def case_prod_beta evict_lru_frame get_embedding_frame
      nth_append split: option.splits)

lemma cleanup_expired_frame:
  "objects (fst (cleanup_expired tm c w)) = objects c"
  "max_size (fst (cleanup_expired tm c w)) = max_size c"
  "similarity_threshold (fst (cleanup_expired tm c w)) = similarity_threshold c"
  "enable_semantic (fst (cleanup_expired tm c w)) = enable_semantic c"
  "embeddings_loaded (fst (cleanup_expired tm c w)) = embeddings_loaded c"
  "snd (cleanup_expired tm c w) = snd (tm w)"
  "exact_cache (fst (cleanup_expired tm c w)) =
     fold AList.delete
       (map fst (filter (\<lambda>(k, a). fst (tm w) - created_at (objects c ! a) > ttl (objects c ! a))
                   (exact_cache c)))
       (exact_cache c)"
  "semantic_cache (fst (cleanup_expired tm c w)) =
     filter (\<lambda>a. fst (tm w) - created_at (objects c ! a) \<le> ttl (objects c ! a)) (semantic_cache c)"
  by (simp_all add: cleanup_expired_def Let_def case_prod_beta)


lemma keys_fold_delete: "fst ` set (fold AList.delete ks al) \<subseteq> fst ` set al"
proof (induction ks arbitrary: al)
  case Nil
  then show ?case by simp
next
  case (Cons k ks)
  have "fst ` set (fold AList.delete ks (AList.delete k al)) \<subseteq> fst ` set (AList.delete k al)"
    by (rule Cons.IH)
  also have "\<dots> \<subseteq> fst ` set al" by (rule dom_delete_subset)
  finally show ?case by simp
qed

lemma distinct_fold_delete:
  "distinct (map fst al) \<Longrightarrow> distinct (map fst (fold AList.delete ks al))"
  by (induction ks arbitrary: al) (simp_all add: distinct_delete)





text \<open>
  One entry per key is an invariant of the exact-match dictionary: a new cache has it, and
  \<open>set\<close> (above), \<open>get\<close>, \<open>invalidate\<close> and \<open>clear\<close> keep it.
\<close>

lemma new_cache_distinct: "distinct (map fst (exact_cache (new_cache ms t th sem)))"
  by (simp add: new_cache_def)

lemma get_distinct:
  assumes "distinct (map fst (exact_cache c))"
  shows "distinct (map fst (exact_cache (fst (snd (get tm emb sha c q w)))))"
proof -
  have "distinct (map fst (exact_cache (fst (cleanup_expired tm c w))))"
    using assms by (simp add: cleanup_expired_frame distinct_fold_delete)
  moreover have "exact_cache (fst (snd (get tm emb sha c q w)))
      = exact_cache (fst (cleanup_expired tm c w))"
    by (simp add: get_def Let_def case_prod_beta hit_entry_def miss_def get_embedding_frame
        split: option.splits)
  ultimately show ?thesis by simp
qed

lemma invalidate_distinct:
  "distinct (map fst (exact_cache c)) \<Longrightarrow> distinct (map fst (exact_cache (invalidate sha c q)))"
  by (simp add: invalidate_def Let_def distinct_delete)

lemma clear_distinct: "distinct (map fst (exact_cache (clear c)))"
  by (simp add: clear_def)




lemma get_semantic_path:
  assumes "map_of (exact_cache (fst (cleanup_expired tm c w))) (get_hash sha q) = None"
  shows "fst (get tm emb sha c q w) =
     (let c1 = fst (cleanup_expired tm c w); w1 = snd (cleanup_expired tm c w) in
      if enable_semantic c1 \<and> semantic_cache c1 \<noteq> [] then
        (let query_embedding = fst (get_embedding emb c1 q w1);
             c2 = fst (snd (get_embedding emb c1 q w1)) in
         if truthy query_embedding then
           (let best = fold (best_step (objects c2) (the query_embedding)) (semantic_cache c2) (None, 0)
            in case fst best of
                 Some a \<Rightarrow> if snd best \<ge> similarity_threshold c2
                           then response (objects c2 ! a) else None
               | None \<Rightarrow> None)
         else None)
      else None)"
  using assms
  by (simp add: get_def Let_def case_prod_beta split: option.splits)






subsection \<open>Invalidation and the semantic store\<close>

lemma invalidate_frame:
  "semantic_cache (invalidate sha c q) = semantic_cache c"
  "objects (invalidate sha c q) = objects c"
  "exact_cache (invalidate sha c q) = AList.delete (get_hash sha q) (exact_cache c)"
  "enable_semantic (invalidate sha c q) = enable_semantic c"
  "embeddings_loaded (invalidate sha c q) = embeddings_loaded c"
  "similarity_threshold (invalidate sha c q) = similarity_threshold c"
  by (simp_all add: invalidate_def Let_def)

lemma get_embedding_available:
  assumes "enable_semantic c"
    and "\<forall>w. fst (get_embeddings emb w)"
    and "\<forall>w. fst (embed_query emb q w) = Some v"
  shows "fst (get_embedding emb c q w) = Some v"
    and "enable_semantic (fst (snd (get_embedding emb c q w)))"
  using assms by (simp_all add: get_embedding_def Let_def case_prod_beta)

lemma set_entry_semantic:
  assumes e: "enable_semantic c"
    and l: "\<forall>w. fst (get_embeddings emb w)"
    and q: "\<forall>w. fst (embed_query emb q w) = Some v"
    and v: "v \<noteq> []"
  shows "semantic_cache (fst (set_entry tm emb sha c q r t w)) = semantic_cache c @ [length (objects c)]"
    and "embedding (objects (fst (set_entry tm emb sha c q r t w)) ! length (objects c)) = Some v"
    and "enable_semantic (fst (set_entry tm emb sha c q r t w))"
    and "similarity_threshold (fst (set_entry tm emb sha c q r t w)) = similarity_threshold c"
proof -
  note g = get_embedding_available [OF _ l q]
  show "semantic_cache (fst (set_entry tm emb sha c q r t w)) = semantic_cache c @ [length (objects c)]"
    using e v
    by (simp add: set_entry_def Let_def case_prod_beta g evict_lru_frame get_embedding_frame)
  show "embedding (objects (fst (set_entry tm emb sha c q r t w)) ! length (objects c)) = Some v"
    using e v
    by (simp add: set_entry_def Let_def case_prod_beta g evict_lru_frame get_embedding_frame)
  show "enable_semantic (fst (set_entry tm emb sha c q r t w))"
    using e v
    by (simp add: set_entry_def Let_def case_prod_beta g evict_lru_frame get_embedding_frame)
  show "similarity_threshold (fst (set_entry tm emb sha c q r t w)) = similarity_threshold c"
    using e v
    by (simp add: set_entry_def Let_def case_prod_beta g evict_lru_frame get_embedding_frame)
qed

lemma stale_semantic_hit:
  assumes e: "enable_semantic c"
    and em: "semantic_cache c = []"
    and l: "\<forall>w. fst (get_embeddings emb w)"
    and q: "\<forall>w. fst (embed_query emb q w) = Some v"
    and q': "\<forall>w. fst (embed_query emb q' w) = Some v'"
    and v: "v \<noteq> []" "v' \<noteq> []"
    and sim: "cosine_similarity v' v \<ge> similarity_threshold c" "cosine_similarity v' v > 0"
    and k: "get_hash sha q' \<notin> fst ` set (exact_cache c)"
    and f: "fst (tm (snd (set_entry tm emb sha c q r t w)))
              - created_at (objects (fst (set_entry tm emb sha c q r t w)) ! length (objects c))
            \<le> ttl (objects (fst (set_entry tm emb sha c q r t w)) ! length (objects c))"
  shows "fst (get tm emb sha (invalidate sha (fst (set_entry tm emb sha c q r t w)) q) q'
                (snd (set_entry tm emb sha c q r t w))) = r"
proof -
  define c1 where "c1 = fst (set_entry tm emb sha c q r t w)"
  define w1 where "w1 = snd (set_entry tm emb sha c q r t w)"
  define a where "a = length (objects c)"
  define c3 where "c3 = invalidate sha c1 q"
  define c4 where "c4 = fst (cleanup_expired tm c3 w1)"
  define w4 where "w4 = snd (cleanup_expired tm c3 w1)"
  define c5 where "c5 = fst (snd (get_embedding emb c4 q' w4))"
  note s = set_entry_semantic [OF e l q v(1), of tm sha r t w, folded c1_def a_def]
  have o: "objects c5 = objects c1" "objects c4 = objects c1"
    by (simp_all add: c5_def c4_def c3_def get_embedding_frame cleanup_expired_frame invalidate_frame)
  have th: "similarity_threshold c5 = similarity_threshold c"
    by (simp add: c5_def c4_def c3_def get_embedding_frame cleanup_expired_frame invalidate_frame s)
  from f have f': "fst (tm w1) - created_at (objects c1 ! a) \<le> ttl (objects c1 ! a)"
    by (simp add: c1_def w1_def a_def)
  have sem4: "semantic_cache c4 = [a]"
    using f' by (simp add: c4_def c3_def cleanup_expired_frame invalidate_frame s em)
  have sem5: "semantic_cache c5 = [a]"
    by (simp add: c5_def get_embedding_frame sem4)
  have e4: "enable_semantic c4"
    by (simp add: c4_def c3_def cleanup_expired_frame invalidate_frame s)
  note g = get_embedding_available [OF e4 l q', of w4]
  have keys1: "fst ` set (exact_cache c1) \<subseteq> insert (get_hash sha q) (fst ` set (exact_cache c))"
  proof -
    have "fst ` set (exact_cache (evict_lru c)) \<subseteq> fst ` set (exact_cache c)"
      by (simp add: evict_lru_def Let_def keys_fold_delete)
    then show ?thesis
      by (auto simp: c1_def set_entry_frame dom_update)
  qed
  have "get_hash sha q' \<notin> fst ` set (exact_cache c3)"
  proof (cases "get_hash sha q' = get_hash sha q")
    case True
    then show ?thesis
      by (simp add: c3_def invalidate_frame delete_notin_dom)
  next
    case False
    have "fst ` set (exact_cache c3) \<subseteq> fst ` set (exact_cache c1)"
      by (simp add: c3_def invalidate_frame dom_delete_subset)
    with keys1 False k show ?thesis by blast
  qed
  moreover have "fst ` set (exact_cache c4) \<subseteq> fst ` set (exact_cache c3)"
    by (simp add: c4_def cleanup_expired_frame keys_fold_delete)
  ultimately have "get_hash sha q' \<notin> fst ` set (exact_cache c4)" by blast
  then have n: "map_of (exact_cache c4) (get_hash sha q') = None"
    by (simp add: map_of_eq_None_iff)
  have best: "fold (best_step (objects c5) v') (semantic_cache c5) (None, 0)
      = (Some a, cosine_similarity v' v)"
    using sim(2) v(1) by (simp add: sem5 best_step_def Let_def o s)
  from get_semantic_path [of tm c3 w1 sha q' emb] n
  have "fst (get tm emb sha c3 q' w1) = response (objects c1 ! a)"
    using e4 sem4 g(1) v(2) best sim(1)
    by (simp add: c4_def [symmetric] w4_def [symmetric] c5_def [symmetric] Let_def th o)
  then show ?thesis
    by (simp add: c3_def c1_def w1_def a_def set_entry_object)
qed

text \<open>
  C10. \<open>invalidate(query)\<close> deletes the key of the query from the exact-match dictionary
  and changes nothing else: the semantic list and the entry objects are as before. So, in
  semantic mode: let \<open>set(q, r)\<close> store an entry with embedding \<open>v\<close> into a cache whose
  semantic list was empty, and let \<open>invalidate(q)\<close> follow. A \<open>get(q')\<close> at a time when
  the entry has not expired, for a query \<open>q'\<close> without an exact-match entry (\<open>q\<close> itself
  is one) whose embedding \<open>v'\<close> has a positive cosine similarity to \<open>v\<close> of at least
  \<open>similarity_threshold\<close>, returns the invalidated response \<open>r\<close>.
\<close>

theorem invalidate_leaves_semantic_entry:
  "semantic_cache (invalidate sha c q) = semantic_cache c
   \<and> objects (invalidate sha c q) = objects c
   \<and> exact_cache (invalidate sha c q) = AList.delete (get_hash sha q) (exact_cache c)
   \<and> (enable_semantic c \<and> semantic_cache c = []
        \<and> (\<forall>w. fst (get_embeddings emb w))
        \<and> (\<forall>w. fst (embed_query emb q w) = Some v)
        \<and> (\<forall>w. fst (embed_query emb q' w) = Some v')
        \<and> v \<noteq> [] \<and> v' \<noteq> []
        \<and> cosine_similarity v' v \<ge> similarity_threshold c \<and> cosine_similarity v' v > 0
        \<and> get_hash sha q' \<notin> fst ` set (exact_cache c)
        \<and> fst (tm (snd (set_entry tm emb sha c q r t w)))
              - created_at (objects (fst (set_entry tm emb sha c q r t w)) ! length (objects c))
            \<le> ttl (objects (fst (set_entry tm emb sha c q r t w)) ! length (objects c))
      \<longrightarrow> get_hash sha q \<notin> fst ` set (exact_cache (invalidate sha (fst (set_entry tm emb sha c q r t w)) q))
          \<and> fst (get tm emb sha (invalidate sha (fst (set_entry tm emb sha c q r t w)) q) q'
                   (snd (set_entry tm emb sha c q r t w))) = r)"
proof (intro conjI impI)
  show "semantic_cache (invalidate sha c q) = semantic_cache c"
    and "objects (invalidate sha c q) = objects c"
    and "exact_cache (invalidate sha c q) = AList.delete (get_hash sha q) (exact_cache c)"
    by (simp_all add: invalidate_frame)
next
  show "get_hash sha q \<notin> fst ` set (exact_cache (invalidate sha (fst (set_entry tm emb sha c q r t w)) q))"
    by (simp add: invalidate_frame delete_notin_dom)
next
  assume a: "enable_semantic c \<and> semantic_cache c = []
        \<and> (\<forall>w. fst (get_embeddings emb w))
        \<and> (\<forall>w. fst (embed_query emb q w) = Some v)
        \<and> (\<forall>w. fst (embed_query emb q' w) = Some v')
        \<and> v \<noteq> [] \<and> v' \<noteq> []
        \<and> cosine_similarity v' v \<ge> similarity_threshold c \<and> cosine_similarity v' v > 0
        \<and> get_hash sha q' \<notin> fst ` set (exact_cache c)
        \<and> fst (tm (snd (set_entry tm emb sha c q r t w)))
              - created_at (objects (fst (set_entry tm emb sha c q r t w)) ! length (objects c))
            \<le> ttl (objects (fst (set_entry tm emb sha c q r t w)) ! length (objects c))"
  from a have h: "enable_semantic c" "semantic_cache c = []"
    "\<forall>w. fst (get_embeddings emb w)"
    "\<forall>w. fst (embed_query emb q w) = Some v"
    "\<forall>w. fst (embed_query emb q' w) = Some v'"
    "v \<noteq> []" "v' \<noteq> []"
    "cosine_similarity v' v \<ge> similarity_threshold c" "cosine_similarity v' v > 0"
    "get_hash sha q' \<notin> fst ` set (exact_cache c)"
    "fst (tm (snd (set_entry tm emb sha c q r t w)))
              - created_at (objects (fst (set_entry tm emb sha c q r t w)) ! length (objects c))
            \<le> ttl (objects (fst (set_entry tm emb sha c q r t w)) ! length (objects c))"
    by blast+
  show "fst (get tm emb sha (invalidate sha (fst (set_entry tm emb sha c q r t w)) q) q'
                   (snd (set_entry tm emb sha c q r t w))) = r"
    by (rule stale_semantic_hit [OF h])
qed

lemma demo_cosine: "cosine_similarity [1, 0] [1, 0] = 1"
  by (simp add: cosine_similarity_def)

theorem invalidate_leaves_semantic_entry_witness:
  "enable_semantic semantic_demo_cache
   \<and> semantic_cache semantic_demo_cache = []
   \<and> (\<forall>w. fst (get_embeddings demo_embedder w))
   \<and> (\<forall>w. fst (embed_query demo_embedder ''  Hello '' w) = Some [1, 0])
   \<and> (\<forall>w. fst (embed_query demo_embedder ''HELLO'' w) = Some [1, 0])
   \<and> cosine_similarity [1, 0] [1, 0] \<ge> similarity_threshold semantic_demo_cache
   \<and> cosine_similarity [1, 0] [1, 0] > 0
   \<and> get_hash demo_sha256 ''HELLO'' \<notin> fst ` set (exact_cache semantic_demo_cache)
   \<and> fst (tick_clock (snd (set_entry tick_clock demo_embedder demo_sha256 semantic_demo_cache
                             ''  Hello '' (Some ''hi there'') None 0)))
         - created_at (objects (fst (set_entry tick_clock demo_embedder demo_sha256 semantic_demo_cache
                             ''  Hello '' (Some ''hi there'') None 0))
                       ! length (objects semantic_demo_cache))
       \<le> ttl (objects (fst (set_entry tick_clock demo_embedder demo_sha256 semantic_demo_cache
                             ''  Hello '' (Some ''hi there'') None 0))
                ! length (objects semantic_demo_cache))
   \<and> get_hash demo_sha256 ''  Hello ''
        \<notin> fst ` set (exact_cache (invalidate demo_sha256
               (fst (set_entry tick_clock demo_embedder demo_sha256 semantic_demo_cache
                       ''  Hello '' (Some ''hi there'') None 0)) ''  Hello ''))
   \<and> fst (get tick_clock demo_embedder demo_sha256
            (invalidate demo_sha256
               (fst (set_entry tick_clock demo_embedder demo_sha256 semantic_demo_cache
                       ''  Hello '' (Some ''hi there'') None 0)) ''  Hello '')
            ''HELLO''
            (snd (set_entry tick_clock demo_embedder demo_sha256 semantic_demo_cache
                    ''  Hello '' (Some ''hi there'') None 0))) = Some ''hi there''"
proof -
  let ?s = "set_entry tick_clock demo_embedder demo_sha256 semantic_demo_cache
              ''  Hello '' (Some ''hi there'') None 0"
  have c: "enable_semantic semantic_demo_cache" "semantic_cache semantic_demo_cache = []"
    "get_hash demo_sha256 ''HELLO'' \<notin> fst ` set (exact_cache semantic_demo_cache)"
    "similarity_threshold semantic_demo_cache = 95 / 100"
    "default_ttl semantic_demo_cache = 3600"
    by (simp_all add: semantic_demo_cache_def new_cache_def)
  have e: "\<forall>w. fst (get_embeddings demo_embedder w)"
    "\<forall>w. fst (embed_query demo_embedder ''  Hello '' w) = Some [1, 0]"
    "\<forall>w. fst (embed_query demo_embedder ''HELLO'' w) = Some [1, 0]"
    by (simp_all add: demo_embedder_def)
  have v: "[1, 0 :: real] \<noteq> []" by simp
  have sim: "cosine_similarity [1, 0] [1, 0] \<ge> similarity_threshold semantic_demo_cache"
    "cosine_similarity [1, 0] [1, 0] > 0"
    by (simp_all add: demo_cosine c)
  have w: "snd ?s = 1"
    by (simp add: set_entry_def Let_def case_prod_beta get_embedding_def demo_embedder_def
        semantic_demo_cache_def new_cache_def evict_lru_def tick_clock_def)
  have f: "fst (tick_clock (snd ?s))
         - created_at (objects (fst ?s) ! length (objects semantic_demo_cache))
       \<le> ttl (objects (fst ?s) ! length (objects semantic_demo_cache))"
    by (simp add: w set_entry_object c) (simp add: tick_clock_def)
  have r: "get_hash demo_sha256 ''  Hello ''
        \<notin> fst ` set (exact_cache (invalidate demo_sha256 (fst ?s) ''  Hello ''))
      \<and> fst (get tick_clock demo_embedder demo_sha256
            (invalidate demo_sha256 (fst ?s) ''  Hello '') ''HELLO'' (snd ?s)) = Some ''hi there''"
    by (rule mp [OF conjunct2 [OF conjunct2 [OF conjunct2 [OF invalidate_leaves_semantic_entry
        [of demo_sha256 semantic_demo_cache "''  Hello ''" demo_embedder "[1, 0]" "''HELLO''"
          "[1, 0]" tick_clock "Some ''hi there''" None 0]]]]])
      (intro conjI c(1) c(2) e v sim c(3) f)
  show ?thesis
    by (intro conjI c(1) c(2) e sim c(3) f conjunct1 [OF r] conjunct2 [OF r])
qed

end
